theory Spec2Isabelle
  imports Main "HOL-Library.Multiset"
begin

section \<open>Strings and characters of the host language\<close>

text \<open>
  A string of the program is a sequence of UTF-16 code units; \<open>length\<close>, \<open>slice\<close> and
  the regular expressions all count code units.  A code unit is modelled as a natural
  number, a string as a list of them.  \<open>js\<close> reads an ASCII literal.
\<close>

type_synonym jschar = nat
type_synonym jsstring = "nat list"

definition js :: "string \<Rightarrow> jsstring" where
  "js s = map of_char s"

definition isDigit :: "jschar \<Rightarrow> bool" where
  "isDigit c \<longleftrightarrow> 48 \<le> c \<and> c \<le> 57"

text \<open>The class \<open>\s\<close> (white space and line terminators); \<open>trim\<close> strips the same set.\<close>

definition isSpace :: "jschar \<Rightarrow> bool" where
  "isSpace c \<longleftrightarrow>
     (9 \<le> c \<and> c \<le> 13) \<or> c = 32 \<or> c = 160 \<or> c = 5760 \<or> (8192 \<le> c \<and> c \<le> 8202) \<or>
     c = 8232 \<or> c = 8233 \<or> c = 8239 \<or> c = 8287 \<or> c = 12288 \<or> c = 65279"

definition isLineTerminator :: "jschar \<Rightarrow> bool" where
  "isLineTerminator c \<longleftrightarrow> c = 10 \<or> c = 13 \<or> c = 8232 \<or> c = 8233"

text \<open>The class \<open>\w\<close>, which decides the word boundary \<open>\b\<close>.\<close>

definition isWordChar :: "jschar \<Rightarrow> bool" where
  "isWordChar c \<longleftrightarrow>
     (48 \<le> c \<and> c \<le> 57) \<or> (65 \<le> c \<and> c \<le> 90) \<or> c = 95 \<or> (97 \<le> c \<and> c \<le> 122)"

text \<open>
  What the model takes from the platform as given.  \<open>caseMapping\<close> is
  \<open>String.prototype.toLowerCase\<close> on the strings that hold a code unit outside ASCII (the
  case tables of Unicode, with their rules for surrogate pairs and for context);
  \<open>bigNumberText\<close> is the text of a number of magnitude above \<open>2^53\<close>, as a template
  literal prints it.  Every function that lower-cases a string or prints a number has
  the platform as its first argument, and every statement holds for every platform.
\<close>

record Platform =
  caseMapping :: "jsstring \<Rightarrow> jsstring"
  bigNumberText :: "int \<Rightarrow> jsstring"

text \<open>
  \<open>toLowerCase\<close>: on a string of ASCII code units the letters \<open>A\<close> to \<open>Z\<close> are mapped to
  \<open>a\<close> to \<open>z\<close> and nothing else changes; every other string is mapped by the platform.
\<close>

definition toLowerCase :: "Platform \<Rightarrow> jsstring \<Rightarrow> jsstring" where
  "toLowerCase pf s =
     (if list_all (\<lambda>c. c < 128) s then map (\<lambda>c. if 65 \<le> c \<and> c \<le> 90 then c + 32 else c) s
      else caseMapping pf s)"

definition trim :: "jsstring \<Rightarrow> jsstring" where
  "trim s = rev (dropWhile isSpace (rev (dropWhile isSpace s)))"

section \<open>Regular expressions\<close>

text \<open>
  The program's regular expressions are kept as syntax trees and run by a backtracking
  matcher that returns every way to match at a position, in the order in which the
  host's matcher tries them; the first one is the match the host reports.
\<close>

datatype cset =
    CChar jschar
  | CRange jschar jschar
  | CDigit
  | CSpace
  | CDot
  | CUnion cset cset
  | CNot cset

fun in_cset :: "cset \<Rightarrow> jschar \<Rightarrow> bool" where
  "in_cset (CChar a) c \<longleftrightarrow> c = a"
| "in_cset (CRange a b) c \<longleftrightarrow> a \<le> c \<and> c \<le> b"
| "in_cset CDigit c \<longleftrightarrow> isDigit c"
| "in_cset CSpace c \<longleftrightarrow> isSpace c"
| "in_cset CDot c \<longleftrightarrow> \<not> isLineTerminator c"
| "in_cset (CUnion x y) c \<longleftrightarrow> in_cset x c \<or> in_cset y c"
| "in_cset (CNot x) c \<longleftrightarrow> \<not> in_cset x c"

datatype regex =
    Eps
  | Ch cset
  | Lit jsstring
  | LitI jsstring
  | Seq regex regex
  | Alt regex regex
  | Star regex
  | LazyStar regex
  | WordB
  | Bol
  | Eol
  | Grp nat regex

text \<open>
  A matcher state: the code unit before the position (none at the start of the input),
  the rest of the input, and the capture groups closed so far (latest first).  A group
  that takes no part in a match has no capture, as it is \<open>undefined\<close> in the host.
\<close>

type_synonym mstate = "jschar option \<times> jsstring \<times> (nat \<times> jsstring) list"

text \<open>Under the flag \<open>i\<close> an ASCII letter of the pattern matches its two cases only.\<close>

definition eqI :: "jschar \<Rightarrow> jschar \<Rightarrow> bool" where
  "eqI a c \<longleftrightarrow> c = a \<or> (97 \<le> a \<and> a \<le> 122 \<and> c + 32 = a) \<or> (65 \<le> a \<and> a \<le> 90 \<and> c = a + 32)"

fun lit_match :: "bool \<Rightarrow> jsstring \<Rightarrow> mstate \<Rightarrow> mstate list" where
  "lit_match ci [] st = [st]"
| "lit_match ci (a # l) (p, [], g) = []"
| "lit_match ci (a # l) (p, c # s, g) =
     (if (if ci then eqI a c else c = a) then lit_match ci l (Some c, s, g) else [])"

definition atBoundary :: "jschar option \<Rightarrow> jsstring \<Rightarrow> bool" where
  "atBoundary p s \<longleftrightarrow>
     (case p of None \<Rightarrow> False | Some a \<Rightarrow> isWordChar a) \<noteq>
     (case s of [] \<Rightarrow> False | c # _ \<Rightarrow> isWordChar c)"

function rmatch :: "regex \<Rightarrow> mstate \<Rightarrow> mstate list" where
  "rmatch Eps st = [st]"
| "rmatch (Ch cs) (p, s, g) =
     (case s of [] \<Rightarrow> [] | c # s' \<Rightarrow> if in_cset cs c then [(Some c, s', g)] else [])"
| "rmatch (Lit l) st = lit_match False l st"
| "rmatch (LitI l) st = lit_match True l st"
| "rmatch (Seq r1 r2) st = concat (map (rmatch r2) (rmatch r1 st))"
| "rmatch (Alt r1 r2) st = rmatch r1 st @ rmatch r2 st"
| "rmatch (Star r) (p, s, g) =
     concat (map (\<lambda>st'. if length (fst (snd st')) < length s then rmatch (Star r) st' else [])
                 (rmatch r (p, s, g))) @ [(p, s, g)]"
| "rmatch (LazyStar r) (p, s, g) =
     (p, s, g) #
     concat (map (\<lambda>st'. if length (fst (snd st')) < length s then rmatch (LazyStar r) st' else [])
                 (rmatch r (p, s, g)))"
| "rmatch WordB (p, s, g) = (if atBoundary p s then [(p, s, g)] else [])"
| "rmatch Bol (p, s, g) = (if p = None then [(p, s, g)] else [])"
| "rmatch Eol (p, s, g) = (if s = [] then [(p, s, g)] else [])"
| "rmatch (Grp n r) (p, s, g) =
     map (\<lambda>(p', s', g'). (p', s', (n, take (length s - length s') s) # g')) (rmatch r (p, s, g))"
  by pat_completeness auto
termination
  by (relation "inv_image (less_than <*lex*> less_than) (\<lambda>(r, st). (size r, length (fst (snd st))))")
     auto


text \<open>
  Derived forms: \<open>r+\<close>, \<open>r?\<close>, a sequence, a list of alternatives, and a literal text
  given in ASCII, matched exactly (\<open>S\<close>) or under the flag \<open>i\<close> (\<open>SI\<close>).
\<close>

definition Plus :: "regex \<Rightarrow> regex" where
  "Plus r = Seq r (Star r)"

definition Opt :: "regex \<Rightarrow> regex" where
  "Opt r = Alt r Eps"

definition Seqs :: "regex list \<Rightarrow> regex" where
  "Seqs rs = foldr Seq rs Eps"

definition Alts :: "regex list \<Rightarrow> regex" where
  "Alts rs = (case rs of [] \<Rightarrow> Eps | _ \<Rightarrow> foldr Alt (butlast rs) (last rs))"

definition S :: "string \<Rightarrow> regex" where
  "S s = Lit (js s)"

definition SI :: "string \<Rightarrow> regex" where
  "SI s = LitI (js s)"

text \<open>
  \<open>exec\<close> without the flag \<open>g\<close>: the leftmost position with a match, and there the first
  match.  The result is the text before the match, the matched text and the final state.
\<close>

fun rfind :: "regex \<Rightarrow> jschar option \<Rightarrow> jsstring \<Rightarrow> (jsstring \<times> jsstring \<times> mstate) option" where
  "rfind r p [] =
     (case rmatch r (p, [], []) of [] \<Rightarrow> None | st # _ \<Rightarrow> Some ([], [], st))"
| "rfind r p (c # s) =
     (case rmatch r (p, c # s, []) of
        st # _ \<Rightarrow> Some ([], take (length (c # s) - length (fst (snd st))) (c # s), st)
      | [] \<Rightarrow> map_option (\<lambda>(pre, m, st). (c # pre, m, st)) (rfind r (Some c) s))"

definition rexec :: "regex \<Rightarrow> jsstring \<Rightarrow> (jsstring \<times> jsstring \<times> mstate) option" where
  "rexec r s = rfind r None s"

definition rtest :: "regex \<Rightarrow> jsstring \<Rightarrow> bool" where
  "rtest r s \<longleftrightarrow> rexec r s \<noteq> None"

text \<open>\<open>s.match(r)\<close> without the flag \<open>g\<close>: the matched text, and a capture group of the match.\<close>

definition match0 :: "regex \<Rightarrow> jsstring \<Rightarrow> jsstring option" where
  "match0 r s = map_option (\<lambda>(pre, m, st). m) (rexec r s)"

definition capture :: "nat \<Rightarrow> mstate \<Rightarrow> jsstring option" where
  "capture n st = map_of (snd (snd st)) n"

text \<open>\<open>s.replace(r, rep)\<close> for a pattern without the flag \<open>g\<close>: the first match only.\<close>

definition replaceFirst :: "regex \<Rightarrow> jsstring \<Rightarrow> jsstring \<Rightarrow> jsstring" where
  "replaceFirst r rep s =
     (case rexec r s of None \<Rightarrow> s | Some (pre, m, st) \<Rightarrow> pre @ rep @ fst (snd st))"

text \<open>
  \<open>s.replace(r, rep)\<close> for a pattern with the flag \<open>g\<close>: every match from left to right,
  the search going on behind each match; after an empty match it moves one code unit on.
\<close>

function replaceFrom :: "regex \<Rightarrow> jsstring \<Rightarrow> jschar option \<Rightarrow> jsstring \<Rightarrow> jsstring" where
  "replaceFrom r rep p s =
     (case rmatch r (p, s, []) of
        st # _ \<Rightarrow>
          (if length (fst (snd st)) < length s then rep @ replaceFrom r rep (fst st) (fst (snd st))
           else (case s of [] \<Rightarrow> rep | c # t \<Rightarrow> rep @ c # replaceFrom r rep (Some c) t))
      | [] \<Rightarrow> (case s of [] \<Rightarrow> [] | c # t \<Rightarrow> c # replaceFrom r rep (Some c) t))"
  by pat_completeness auto
termination
  by (relation "measure (\<lambda>(r, rep, p, s). length s)") auto

definition replaceAll :: "regex \<Rightarrow> jsstring \<Rightarrow> jsstring \<Rightarrow> jsstring" where
  "replaceAll r rep s = replaceFrom r rep None s"

section \<open>Text and value normalizer\<close>

definition collapseSpace :: "jsstring \<Rightarrow> jsstring" where
  "collapseSpace s = trim (replaceAll (Plus (Ch CSpace)) (js '' '') s)"

text \<open>The four patterns of counter artifacts, in the order in which they are applied.\<close>

definition passedGlued :: regex where
  "passedGlued = Seqs [WordB, Plus (Ch CDigit), SI ''passed'', Plus (Ch CDigit), WordB]"

definition passedBoth :: regex where
  "passedBoth = Seqs [WordB, Plus (Ch CDigit), Star (Ch CSpace), SI ''passed'',
                      Star (Ch CSpace), Plus (Ch CDigit), WordB]"

definition passedAfter :: regex where
  "passedAfter = Seqs [WordB, SI ''passed'', Star (Ch CSpace), Plus (Ch CDigit), WordB]"

definition passedBefore :: regex where
  "passedBefore = Seqs [WordB, Plus (Ch CDigit), Star (Ch CSpace), SI ''passed'', WordB]"

text \<open>
  \<open>normalizeText\<close> on a string, and on a value that may be absent (\<open>null\<close> or
  \<open>undefined\<close>, here \<open>None\<close>), which counts as the empty string.
\<close>

definition normalizeText :: "jsstring \<Rightarrow> jsstring" where
  "normalizeText v =
     (let t = collapseSpace v;
          t = replaceAll passedGlued [] t;
          t = replaceAll passedBoth [] t;
          t = replaceAll passedAfter [] t;
          t = replaceAll passedBefore [] t
      in collapseSpace t)"

definition normalizeTextOpt :: "jsstring option \<Rightarrow> jsstring" where
  "normalizeTextOpt v = normalizeText (case v of None \<Rightarrow> [] | Some s \<Rightarrow> s)"


section \<open>Numbers\<close>

text \<open>
  A value of the number type of the host language is modelled by an integer.  A whole
  number is modelled by itself; an integer of magnitude \<open>2^1024\<close> or more stands for a
  value that is not finite: an infinity of its sign, or \<open>NaN\<close>.  The program reads
  \<open>NaN\<close> in \<open>Number.isFinite\<close> only, where it fares as the infinities do; the
  difference of two infinities of one sign, which is \<open>NaN\<close> in the host language and
  counts as zero in a sort, is zero in the model.  \<open>NaN\<close> as the result of \<open>parseInt\<close>
  on a text without a leading digit is \<open>None\<close>.  Fractions are not modelled: the counts
  of the program are whole numbers.

  The number type holds a whole number exactly when 53 bits suffice for its digits up
  to the last one that is not zero.  The result of an operation is rounded to the
  nearest such number, to the one with the even 53-bit part if two are equally near,
  and is infinite if that number has a magnitude of \<open>2^1024\<close> or more.
\<close>

fun bitLength :: "nat \<Rightarrow> nat" where
  "bitLength n = (if n = 0 then 0 else Suc (bitLength (n div 2)))"

definition roundNat :: "nat \<Rightarrow> nat" where
  "roundNat m =
     (let e = bitLength m - 53; q = m div 2 ^ e; r = m mod 2 ^ e
      in if 2 * r < 2 ^ e \<or> (2 * r = 2 ^ e \<and> even q) then q * 2 ^ e else (q + 1) * 2 ^ e)"

definition infinity :: int where
  "infinity = 2 ^ 1024"

text \<open>The number that an exact result is stored as.\<close>

definition num :: "int \<Rightarrow> int" where
  "num n =
     (let v = int (roundNat (nat \<bar>n\<bar>))
      in if infinity \<le> v then sgn n * infinity else sgn n * v)"

definition isFinite :: "int \<Rightarrow> bool" where
  "isFinite n \<longleftrightarrow> \<bar>n\<bar> < infinity"

definition digitsValue :: "jsstring \<Rightarrow> int" where
  "digitsValue ds = foldl (\<lambda>acc c. 10 * acc + (int c - 48)) 0 ds"

text \<open>\<open>Number.parseInt(s, 10)\<close>; the program applies it to matches of \<open>\d+\<close> only.\<close>

definition parseInt :: "jsstring \<Rightarrow> int option" where
  "parseInt s =
     (let ds = takeWhile isDigit s in if ds = [] then None else Some (num (digitsValue ds)))"

text \<open>
  The decimal text of a number, as a template literal prints it.  Up to \<open>2^53\<close> the text
  has all the digits of the number; above, the platform prints the shortest text that
  reads back as the same number.
\<close>

function showNat :: "nat \<Rightarrow> jsstring" where
  "showNat n = (if n < 10 then [48 + n] else showNat (n div 10) @ [48 + n mod 10])"
  by pat_completeness auto
termination
  by (relation "measure id") auto

definition showInt :: "int \<Rightarrow> jsstring" where
  "showInt n = (if n < 0 then 45 # showNat (nat (- n)) else showNat (nat n))"

definition showNumber :: "Platform \<Rightarrow> int \<Rightarrow> jsstring" where
  "showNumber pf n = (if \<bar>n\<bar> \<le> 2 ^ 53 then showInt n else bigNumberText pf n)"

section \<open>Arrays, sets and sorting of the host language\<close>

text \<open>\<open>Array.from(new Set(xs))\<close>: the first occurrence of every element, in order.\<close>

definition uniq :: "'a list \<Rightarrow> 'a list" where
  "uniq xs = rev (remdups (rev xs))"

text \<open>
  \<open>Array.prototype.sort\<close> with a comparator is stable; an insertion sort that puts an
  element before the first one it does not compare greater than gives the same order.
  A comparator result that is not a number counts as zero; in the model the difference
  of two infinite counts of the same sign is zero.
\<close>

fun insertBy :: "('a \<Rightarrow> 'a \<Rightarrow> int) \<Rightarrow> 'a \<Rightarrow> 'a list \<Rightarrow> 'a list" where
  "insertBy cmp x [] = [x]"
| "insertBy cmp x (y # ys) = (if cmp x y \<le> 0 then x # y # ys else y # insertBy cmp x ys)"

definition sortBy :: "('a \<Rightarrow> 'a \<Rightarrow> int) \<Rightarrow> 'a list \<Rightarrow> 'a list" where
  "sortBy cmp xs = foldr (insertBy cmp) xs []"

text \<open>\<open>xs[i]\<close>, which is \<open>undefined\<close> out of range.\<close>

definition at :: "'a list \<Rightarrow> nat \<Rightarrow> 'a option" where
  "at xs i = (if i < length xs then Some (xs ! i) else None)"

text \<open>\<open>xs.findIndex(f)\<close>, with \<open>None\<close> for \<open>-1\<close>.\<close>

fun findIndex :: "('a \<Rightarrow> bool) \<Rightarrow> 'a list \<Rightarrow> nat option" where
  "findIndex f [] = None"
| "findIndex f (x # xs) = (if f x then Some 0 else map_option Suc (findIndex f xs))"

text \<open>\<open>a || b\<close> on strings: the empty string is falsy.\<close>

definition orElse :: "jsstring \<Rightarrow> jsstring \<Rightarrow> jsstring" where
  "orElse a b = (if a \<noteq> [] then a else b)"

text \<open>\<open>a || undefined\<close> on a string.\<close>

definition orUndefined :: "jsstring \<Rightarrow> jsstring option" where
  "orUndefined a = (if a \<noteq> [] then Some a else None)"

section \<open>The document tree\<close>

text \<open>
  A document is the tree under its root element.  An element carries its lower-case
  name, its attributes in order and its children.  An element of a document is referred
  to by the path of child indices that leads to it from the root, so that two
  references are the same element exactly when the paths are equal.

  The names of elements and attributes are those the parser of the platform stores
  (lower case); \<open>tagName === "LI"\<close> is the test for the name \<open>li\<close>.  Class names are
  compared exactly.  Every selector of the program is taken to be supported by the
  platform, \<open>:has\<close> included, so that a query raises no exception.
\<close>

datatype node = Text jsstring | Element jsstring "(jsstring \<times> jsstring) list" "node list"

type_synonym path = "nat list"

fun nodeAt :: "node \<Rightarrow> path \<Rightarrow> node option" where
  "nodeAt n [] = Some n"
| "nodeAt (Text t) (i # p) = None"
| "nodeAt (Element t a cs) (i # p) = (if i < length cs then nodeAt (cs ! i) p else None)"

fun textContent :: "node \<Rightarrow> jsstring" where
  "textContent (Text t) = t"
| "textContent (Element t a cs) = concat (map textContent cs)"

text \<open>The elements of a subtree in document order, as paths from its root.\<close>

fun elemPaths :: "node \<Rightarrow> path list"
  and elemPathsFrom :: "nat \<Rightarrow> node list \<Rightarrow> path list" where
  "elemPaths (Text t) = []"
| "elemPaths (Element t a cs) = [] # elemPathsFrom 0 cs"
| "elemPathsFrom i [] = []"
| "elemPathsFrom i (c # cs) = map ((#) i) (elemPaths c) @ elemPathsFrom (Suc i) cs"

definition allElements :: "node \<Rightarrow> path list" where
  "allElements doc = elemPaths doc"

definition descendants :: "node \<Rightarrow> path \<Rightarrow> path list" where
  "descendants doc p =
     (case nodeAt doc p of None \<Rightarrow> [] | Some n \<Rightarrow> map ((@) p) (tl (elemPaths n)))"

definition tagOf :: "node \<Rightarrow> path \<Rightarrow> jsstring option" where
  "tagOf doc p = (case nodeAt doc p of Some (Element t a cs) \<Rightarrow> Some t | _ \<Rightarrow> None)"

definition getAttribute :: "node \<Rightarrow> path \<Rightarrow> jsstring \<Rightarrow> jsstring option" where
  "getAttribute doc p name =
     (case nodeAt doc p of Some (Element t a cs) \<Rightarrow> map_of a name | _ \<Rightarrow> None)"

definition textOf :: "node \<Rightarrow> path \<Rightarrow> jsstring option" where
  "textOf doc p = map_option textContent (nodeAt doc p)"

definition parentElement :: "path \<Rightarrow> path option" where
  "parentElement p = (if p = [] then None else Some (butlast p))"

text \<open>The children of an element that are elements with a given name.\<close>

definition childrenNamed :: "node \<Rightarrow> path \<Rightarrow> jsstring \<Rightarrow> path list" where
  "childrenNamed doc p name =
     (case nodeAt doc p of
        Some (Element t a cs) \<Rightarrow>
          map (\<lambda>i. p @ [i]) (filter (\<lambda>i. tagOf doc (p @ [i]) = Some name) [0..<length cs])
      | _ \<Rightarrow> [])"

text \<open>The tokens of a \<open>class\<close> attribute, split at ASCII white space.\<close>

fun splitTokens :: "jsstring \<Rightarrow> jsstring \<Rightarrow> jsstring list" where
  "splitTokens acc [] = (if acc = [] then [] else [acc])"
| "splitTokens acc (c # s) =
     (if c = 9 \<or> c = 10 \<or> c = 12 \<or> c = 13 \<or> c = 32
      then (if acc = [] then splitTokens [] s else acc # splitTokens [] s)
      else splitTokens (acc @ [c]) s)"

subsection \<open>Selectors\<close>

text \<open>
  The selectors the program uses: a list of alternatives, each a chain of compound
  selectors joined by the descendant combinator; a compound selector is a conjunction
  of a name, attribute and class tests and \<open>:has(name)\<close>.
\<close>

datatype simple =
    Tag jsstring
  | HasAttr jsstring
  | AttrEq jsstring jsstring
  | HasClass jsstring
  | HasDescendant jsstring

definition matchesSimple :: "node \<Rightarrow> path \<Rightarrow> simple \<Rightarrow> bool" where
  "matchesSimple doc p s =
     (case s of
        Tag t \<Rightarrow> tagOf doc p = Some t
      | HasAttr a \<Rightarrow> getAttribute doc p a \<noteq> None
      | AttrEq a v \<Rightarrow> getAttribute doc p a = Some v
      | HasClass c \<Rightarrow>
          (case getAttribute doc p (js ''class'') of
             None \<Rightarrow> False | Some v \<Rightarrow> c \<in> set (splitTokens [] v))
      | HasDescendant t \<Rightarrow> list_ex (\<lambda>q. tagOf doc q = Some t) (descendants doc p))"

definition properAncestors :: "path \<Rightarrow> path list" where
  "properAncestors p = map (\<lambda>k. take k p) (rev [0..<length p])"

text \<open>A chain of compound selectors, innermost first, matched up the ancestors.\<close>

fun matchesChain :: "node \<Rightarrow> simple list list \<Rightarrow> path \<Rightarrow> bool" where
  "matchesChain doc [] p = True"
| "matchesChain doc [c] p = list_all (matchesSimple doc p) c"
| "matchesChain doc (c # cs) p =
     (list_all (matchesSimple doc p) c \<and>
      list_ex (matchesChain doc cs) (properAncestors p))"

type_synonym selector = "simple list list list"

definition matchesSelector :: "node \<Rightarrow> selector \<Rightarrow> path \<Rightarrow> bool" where
  "matchesSelector doc sel p = list_ex (\<lambda>chain. matchesChain doc (rev chain) p) sel"

definition docQuerySelectorAll :: "node \<Rightarrow> selector \<Rightarrow> path list" where
  "docQuerySelectorAll doc sel = filter (matchesSelector doc sel) (allElements doc)"

definition querySelectorAll :: "node \<Rightarrow> path \<Rightarrow> selector \<Rightarrow> path list" where
  "querySelectorAll doc p sel = filter (matchesSelector doc sel) (descendants doc p)"

definition querySelector :: "node \<Rightarrow> path \<Rightarrow> selector \<Rightarrow> path option" where
  "querySelector doc p sel = (case querySelectorAll doc p sel of [] \<Rightarrow> None | q # _ \<Rightarrow> Some q)"

text \<open>A list of names, as in \<open>"td,th"\<close>.\<close>

definition tags :: "string list \<Rightarrow> selector" where
  "tags ns = map (\<lambda>n. [[Tag (js n)]]) ns"

text \<open>\<open>el.closest(name)\<close>: the nearest of the element and its ancestors with that name.\<close>

definition closest :: "node \<Rightarrow> path \<Rightarrow> jsstring \<Rightarrow> path option" where
  "closest doc p name = find (\<lambda>q. tagOf doc q = Some name) (p # properAncestors p)"

text \<open>\<open>document.body\<close>: the first \<open>body\<close> or \<open>frameset\<close> child of the root \<open>html\<close> element.\<close>

definition body :: "node \<Rightarrow> path option" where
  "body doc =
     (case doc of
        Element t a cs \<Rightarrow>
          (if t = js ''html''
           then map_option (\<lambda>i. [i])
                  (find (\<lambda>i. tagOf doc [i] = Some (js ''body'') \<or> tagOf doc [i] = Some (js ''frameset''))
                     [0..<length cs])
           else None)
      | Text t \<Rightarrow> None)"


section \<open>Data model\<close>

text \<open>
  The types of the program as records.  A field name is a constant of the theory, so a
  name that two types share is told apart: the fields of a consolidated issue that an
  issue has too carry the prefix \<open>c\<close>, the criterion of the breakdown totals is
  \<open>wcagLabel\<close>, and the sums in the debug record are \<open>sumFailures\<close> and \<open>sumPotentials\<close>.
  An optional field is an \<open>option\<close>.
\<close>

datatype SeverityLabel = Critical | Serious | Moderate | Minor | Unknown

datatype SeverityScheme = Axe | Hml | UnknownScheme

text \<open>The label as the string the program stores.\<close>

fun severityText :: "SeverityLabel \<Rightarrow> jsstring" where
  "severityText Critical = js ''Critical''"
| "severityText Serious = js ''Serious''"
| "severityText Moderate = js ''Moderate''"
| "severityText Minor = js ''Minor''"
| "severityText Unknown = js ''Unknown''"

record ParsedIssue =
  title :: jsstring
  description :: jsstring
  severity :: SeverityLabel
  severityOriginal :: "jsstring option"
  occurrences :: int
  wcag :: "jsstring option"
  ruleId :: "jsstring option"
  page :: "jsstring option"
  exampleSnippet :: "jsstring option"
  sourceFile :: jsstring

record ConsolidatedIssue =
  cTitle :: jsstring
  cDescription :: jsstring
  cSeverity :: SeverityLabel
  cWcag :: "jsstring option"
  cRuleId :: "jsstring option"
  cOccurrences :: int
  pages :: "jsstring list"
  sourceFiles :: "jsstring list"
  exampleSnippets :: "jsstring list option"

record TableHeaderInfo =
  index :: nat
  headers :: "jsstring list"
  rows :: nat

record ReportTotals =
  violations :: "int option"
  potentialViolations :: "int option"

record WcagTotalsSummary =
  criteriaWithCounts :: nat
  sumFailures :: int
  sumPotentials :: int

record ParseDebugInfo =
  tablesFound :: nat
  tableHeaders :: "TableHeaderInfo list"
  matchedTables :: nat
  issuesExtracted :: nat
  reportTotals :: "ReportTotals option"
  wcagBreakdownTotals :: "WcagTotalsSummary option"
  severityScheme :: "SeverityScheme option"
  severityLabelsFound :: "jsstring list option"
  warnings :: "jsstring list"

record WcagCriterionTotals =
  wcagLabel :: jsstring
  failures :: int
  potentials :: int

record ParseResult =
  issues :: "ParsedIssue list"
  debug :: ParseDebugInfo

text \<open>A property read on \<open>undefined\<close> raises a \<open>TypeError\<close> in the host language.\<close>

datatype error = TypeError

fun SEVERITY_ORDER :: "SeverityLabel \<Rightarrow> int" where
  "SEVERITY_ORDER Critical = 4"
| "SEVERITY_ORDER Serious = 3"
| "SEVERITY_ORDER Moderate = 2"
| "SEVERITY_ORDER Minor = 1"
| "SEVERITY_ORDER Unknown = 0"

section \<open>Severity normalizer and scheme inference\<close>

text \<open>\<open>formatSeverityLabel\<close>; an absent scheme is \<open>None\<close>.\<close>

definition formatSeverityLabel :: "SeverityLabel \<Rightarrow> SeverityScheme option \<Rightarrow> jsstring" where
  "formatSeverityLabel sev scheme =
     (if scheme = Some Hml then
        (if sev = Critical then js ''Critical''
         else if sev = Serious then js ''High''
         else if sev = Moderate then js ''Medium''
         else if sev = Minor then js ''Low''
         else js ''Unknown'')
      else severityText sev)"

definition normalizeSeverity :: "Platform \<Rightarrow> jsstring \<Rightarrow> SeverityLabel" where
  "normalizeSeverity pf v0 =
     (let v = toLowerCase pf v0 in
      if rtest (Alts [S ''critical'', S ''blocker'', S ''severe'']) v then Critical
      else if rtest (Alts [S ''serious'', S ''high'']) v then Serious
      else if rtest (Alts [S ''moderate'', S ''medium'']) v then Moderate
      else if rtest (Alts [S ''minor'', S ''low'']) v then Minor
      else Unknown)"

definition hmlWord :: regex where
  "hmlWord = Seqs [WordB, Alts [S ''high'', S ''medium'', S ''low''], WordB]"

definition axeWord :: regex where
  "axeWord = Seqs [WordB, Alts [S ''serious'', S ''moderate'', S ''minor''], WordB]"

definition criticalWord :: regex where
  "criticalWord = Seqs [WordB, S ''critical'', WordB]"

definition inferSeveritySchemeFromRawLabels :: "Platform \<Rightarrow> jsstring list \<Rightarrow> SeverityScheme" where
  "inferSeveritySchemeFromRawLabels pf labels =
     (let norm = filter (\<lambda>l. l \<noteq> []) (map (\<lambda>l. toLowerCase pf (normalizeText l)) labels);
          hasHml = list_ex (rtest hmlWord) norm;
          hasAxe = list_ex (rtest axeWord) norm
      in if hasHml \<and> \<not> hasAxe then Hml
         else if hasAxe then Axe
         else if list_ex (rtest criticalWord) norm then Axe
         else UnknownScheme)"

fun pickStep :: "SeverityLabel \<Rightarrow> SeverityLabel \<Rightarrow> SeverityLabel" where
  "pickStep best v = (if SEVERITY_ORDER v > SEVERITY_ORDER best then v else best)"

definition pickHighestSeverity :: "SeverityLabel list \<Rightarrow> SeverityLabel" where
  "pickHighestSeverity vals = foldl pickStep Unknown vals"

section \<open>Snippets, header keys and counts\<close>

definition altTextPattern :: regex where
  "altTextPattern =
     Alts [Seqs [Alt Bol WordB, Alts [S ''alt'', S ''alt text'', S ''alternate text''], WordB],
           Seqs [S ''missing'', Plus (Ch CSpace), S ''alt''],
           Seqs [S ''image'', Plus (Ch CSpace), Star (Ch CDot), WordB, S ''alt'', WordB],
           Seqs [S ''non-text'', Plus (Ch CSpace), S ''content'']]"

definition isAltTextRelated :: "Platform \<Rightarrow> jsstring \<Rightarrow> bool" where
  "isAltTextRelated pf d = rtest altTextPattern (toLowerCase pf (normalizeText d))"

definition isUsefulAltExampleSnippet :: "Platform \<Rightarrow> jsstring \<Rightarrow> bool" where
  "isUsefulAltExampleSnippet pf snippet =
     (let s = toLowerCase pf (normalizeText snippet) in
      rtest (Seqs [S ''<'', Star (Ch CSpace), S ''img'', WordB]) s \<or>
      rtest (Seqs [WordB, S ''alt'', Star (Ch CSpace), S ''='']) s \<or>
      rtest (Seqs [S ''<'', Star (Ch CSpace), S ''picture'', WordB]) s \<or>
      rtest (Seqs [S ''<'', Star (Ch CSpace), S ''source'', WordB]) s)"

text \<open>The ellipsis U+2026 that marks a cut text.\<close>

definition ellipsis :: jschar where
  "ellipsis = 8230"

definition clampSnippet :: "jsstring \<Rightarrow> jsstring" where
  "clampSnippet v0 =
     (let v = normalizeText v0; max = (420::nat) in
      if length v \<le> max then v else take (max - 1) v @ [ellipsis])"

definition toHeaderKey :: "Platform \<Rightarrow> jsstring \<Rightarrow> jsstring" where
  "toHeaderKey pf header =
     trim (replaceAll (Ch (CNot (CUnion (CRange 97 122) (CUnion (CRange 48 57) (CChar 32))))) []
             (replaceAll (Plus (Ch CSpace)) (js '' '') (toLowerCase pf header)))"

definition severityHeader :: regex where
  "severityHeader = Alts [S ''severity'', S ''impact'', S ''level'']"

definition descriptionHeader :: regex where
  "descriptionHeader = Alts [S ''description'', S ''details'', S ''why it matters'', S ''explanation'']"

definition headerLooksLikeIssuesTable :: "jsstring list \<Rightarrow> bool" where
  "headerLooksLikeIssuesTable headerKeys =
     (let hs = uniq headerKeys;
          hasSeverity = list_ex (rtest severityHeader) hs;
          hasDescriptionLike = list_ex (rtest descriptionHeader) hs;
          hasTitleLike =
            list_ex (rtest (Alts [S ''title'', S ''issue'', S ''problem'', S ''summary'',
                                  S ''rule'', S ''check''])) hs
      in hasSeverity \<and> (hasDescriptionLike \<or> hasTitleLike))"

definition getCellText :: "node \<Rightarrow> path \<Rightarrow> jsstring" where
  "getCellText doc cell = normalizeTextOpt (textOf doc cell)"

definition parseOccurrences :: "jsstring \<Rightarrow> int" where
  "parseOccurrences v0 =
     (let v = normalizeText v0 in
      if v = [] then 1
      else (case match0 (Plus (Ch CDigit)) v of
              None \<Rightarrow> 1
            | Some m \<Rightarrow>
                (case parseInt m of
                   None \<Rightarrow> 1
                 | Some n \<Rightarrow> if isFinite n \<and> n > 0 then n else 1)))"

definition parseFirstPositiveInt :: "jsstring \<Rightarrow> int option" where
  "parseFirstPositiveInt v =
     (case match0 (Plus (Ch CDigit)) (normalizeText v) of
        None \<Rightarrow> None
      | Some m \<Rightarrow>
          (case parseInt m of
             None \<Rightarrow> None
           | Some n \<Rightarrow> if isFinite n \<and> n \<ge> 0 then Some n else None))"


section \<open>Report totals, WCAG labels and the WCAG breakdown\<close>

text \<open>\<open>map.set(k, v)\<close> on a \<open>Map\<close>, which keeps the order of first insertion.\<close>

fun mapSet :: "'k \<Rightarrow> 'v \<Rightarrow> ('k \<times> 'v) list \<Rightarrow> ('k \<times> 'v) list" where
  "mapSet k v [] = [(k, v)]"
| "mapSet k v ((k', v') # m) = (if k' = k then (k', v) # m else (k', v') # mapSet k v m)"

text \<open>The loop of \<open>findMetric\<close>; the first argument counts the rounds that are left.\<close>

fun findMetricLoop :: "nat \<Rightarrow> node \<Rightarrow> path option \<Rightarrow> int option" where
  "findMetricLoop 0 doc cur = None"
| "findMetricLoop (Suc k) doc None = None"
| "findMetricLoop (Suc k) doc (Some cur) =
     (let container = (case closest doc cur (js ''div'') of None \<Rightarrow> cur | Some d \<Rightarrow> d);
          inner = querySelectorAll doc container (tags [''div'', ''span'']);
          candidates =
            List.map_filter (\<lambda>c. parseFirstPositiveInt (normalizeTextOpt (textOf doc c))) inner
      in case sortBy (\<lambda>a b. num (a - b)) candidates of
           n # _ \<Rightarrow> Some n
         | [] \<Rightarrow> findMetricLoop k doc (parentElement container))"

definition findMetric :: "node \<Rightarrow> regex \<Rightarrow> int option" where
  "findMetric doc label =
     (case find (\<lambda>n. rtest label (normalizeTextOpt (textOf doc n)))
             (docQuerySelectorAll doc (tags [''p'', ''span'', ''div''])) of
        None \<Rightarrow> None
      | Some labelEl \<Rightarrow> findMetricLoop 6 doc (Some labelEl))"

definition extractBreakdownTotals :: "node \<Rightarrow> ReportTotals" where
  "extractBreakdownTotals doc =
     \<lparr> violations = findMetric doc (Seqs [Bol, SI ''violations'', Eol]),
       potentialViolations =
         findMetric doc (Seqs [Bol, SI ''potential'', Plus (Ch CSpace), SI ''violation'',
                               Opt (SI ''s''), Eol]) \<rparr>"

definition wcagShape :: regex where
  "wcagShape = Seqs [Bol, Plus (Ch CDigit), Plus (Seq (S ''.'') (Plus (Ch CDigit))), Plus (Ch CSpace)]"

text \<open>The counters that an export glues to a criterion title, and a trailing number.\<close>

definition countersTail :: regex where
  "countersTail =
     Seqs [Star (Ch CSpace), Star (Ch CDigit), Star (Ch CSpace),
           Alts [SI ''failures'', SI ''potentials''], WordB, Star (Ch CDot), Eol]"

definition trailingNumber :: regex where
  "trailingNumber = Seqs [Star (Ch CSpace), Plus (Ch CDigit), Star (Ch CSpace), Eol]"

definition sanitizeWcagLabel :: "jsstring \<Rightarrow> jsstring option" where
  "sanitizeWcagLabel raw =
     (let t = normalizeText raw in
      if t = [] then None
      else
        (let t = replaceFirst countersTail [] t;
             t = replaceAll trailingNumber [] t;
             t = normalizeText t
         in if rtest wcagShape t then Some t else None))"

text \<open>
  One round of the walk up the ancestors in \<open>extractBestWcagLabelFromAncestors\<close>: the
  labels the element contributes, which are those of the first button of a list item.
\<close>

definition labelsAt :: "node \<Rightarrow> path \<Rightarrow> jsstring list" where
  "labelsAt doc cur =
     (if tagOf doc cur = Some (js ''li'') then
        (case querySelector doc cur (tags [''button'']) of
           None \<Rightarrow> []
         | Some button \<Rightarrow>
             List.map_filter sanitizeWcagLabel
               (filter (\<lambda>t. t \<noteq> [])
                  (map (\<lambda>d. normalizeTextOpt (textOf doc d))
                     (querySelectorAll doc button (tags [''div''])))))
      else [])"

fun ancestorLabels :: "nat \<Rightarrow> node \<Rightarrow> path option \<Rightarrow> jsstring list" where
  "ancestorLabels 0 doc cur = []"
| "ancestorLabels (Suc k) doc None = []"
| "ancestorLabels (Suc k) doc (Some cur) = labelsAt doc cur @ ancestorLabels k doc (parentElement cur)"

definition countDots :: "jsstring \<Rightarrow> int" where
  "countDots a = int (length (filter (\<lambda>c. c = 46) a))"

definition extractBestWcagLabelFromAncestors :: "node \<Rightarrow> path \<Rightarrow> jsstring option" where
  "extractBestWcagLabelFromAncestors doc el =
     (let candidates = ancestorLabels 15 doc (Some el) in
      if candidates = [] then None
      else at (sortBy (\<lambda>a b. countDots b - countDots a) candidates) 0)"

definition failuresLabel :: regex where
  "failuresLabel = Seqs [Bol, SI ''failures'', Eol]"

definition potentialsLabel :: regex where
  "potentialsLabel = Seqs [Bol, SI ''potentials'', Eol]"

text \<open>One round of the loop over the badges in \<open>extractWcagBreakdownTotals\<close>.\<close>

definition svgStep :: "node \<Rightarrow> (jsstring \<times> WcagCriterionTotals) list \<Rightarrow> path
                         \<Rightarrow> (jsstring \<times> WcagCriterionTotals) list" where
  "svgStep doc byWcag svg =
     (let label = normalizeTextOpt (getAttribute doc svg (js ''aria-label'')) in
      if label = [] then byWcag
      else
        (case extractBestWcagLabelFromAncestors doc svg of
           None \<Rightarrow> byWcag
         | Some w \<Rightarrow>
             if w = [] \<or> \<not> rtest wcagShape w then byWcag
             else
               (let wrapper = closest doc svg (js ''div'');
                    inner = (case wrapper of None \<Rightarrow> None
                             | Some wr \<Rightarrow> querySelector doc wr (tags [''div'']));
                    numberText =
                      orElse (normalizeTextOpt (case inner of None \<Rightarrow> None | Some d \<Rightarrow> textOf doc d))
                             (normalizeTextOpt (case wrapper of None \<Rightarrow> None | Some wr \<Rightarrow> textOf doc wr))
                in case parseFirstPositiveInt numberText of
                     None \<Rightarrow> byWcag
                   | Some n \<Rightarrow>
                       (let existing =
                              (case map_of byWcag w of
                                 None \<Rightarrow> \<lparr> wcagLabel = w, failures = 0, potentials = 0 \<rparr>
                               | Some e \<Rightarrow> e);
                            updated =
                              (if rtest failuresLabel label
                               then existing \<lparr> failures := n \<rparr>
                               else if rtest potentialsLabel label
                               then existing \<lparr> potentials := n \<rparr>
                               else existing)
                        in mapSet w updated byWcag))))"

definition extractWcagBreakdownTotals :: "node \<Rightarrow> WcagCriterionTotals list" where
  "extractWcagBreakdownTotals doc =
     map snd
       (foldl (svgStep doc) []
          (docQuerySelectorAll doc
             [[[Tag (js ''svg''), AttrEq (js ''aria-label'') (js ''Failures'')]],
              [[Tag (js ''svg''), AttrEq (js ''aria-label'') (js ''Potentials'')]]]))"

definition urlPattern :: regex where
  "urlPattern =
     Seqs [SI ''http'', Opt (SI ''s''), S ''://'',
           Plus (Ch (CNot (CUnion CSpace (CUnion (CChar 41) (CUnion (CChar 93)
                   (CUnion (CChar 34) (CChar 39)))))))]"

definition extractPrimaryPageUrl :: "node \<Rightarrow> jsstring option" where
  "extractPrimaryPageUrl doc =
     (case find (\<lambda>t. rtest (Seqs [Bol, SI ''http'', Opt (SI ''s''), S ''://'']) t \<and> length t < 300)
             (map (\<lambda>p. normalizeTextOpt (textOf doc p)) (docQuerySelectorAll doc (tags [''p'']))) of
        Some t \<Rightarrow> Some t
      | None \<Rightarrow>
          match0 urlPattern
            (normalizeTextOpt (case body doc of None \<Rightarrow> None | Some b \<Rightarrow> textOf doc b)))"


section \<open>Table-based extractor\<close>

text \<open>\<open>table.tHead?.rows?.[0]\<close>: the first row of the first \<open>thead\<close> child.\<close>

definition tHeadFirstRow :: "node \<Rightarrow> path \<Rightarrow> path option" where
  "tHeadFirstRow doc table =
     (case childrenNamed doc table (js ''thead'') of
        [] \<Rightarrow> None
      | h # _ \<Rightarrow> at (childrenNamed doc h (js ''tr'')) 0)"

definition tableHeaderRow :: "node \<Rightarrow> path \<Rightarrow> path option" where
  "tableHeaderRow doc table =
     (let trs = querySelectorAll doc table (tags [''tr'']) in
      case tHeadFirstRow doc table of
        Some r \<Rightarrow> Some r
      | None \<Rightarrow>
          (case find (\<lambda>r. length (querySelectorAll doc r (tags [''th''])) > 0) trs of
             Some r \<Rightarrow> Some r
           | None \<Rightarrow> at trs 0))"

definition tableDataRows :: "node \<Rightarrow> path \<Rightarrow> path \<Rightarrow> path list" where
  "tableDataRows doc table headerRow =
     (let trs = querySelectorAll doc table (tags [''tr'']);
          tBodies = childrenNamed doc table (js ''tbody'');
          bodyRows = (if length tBodies > 0
                      then concat (map (\<lambda>b. childrenNamed doc b (js ''tr'')) tBodies)
                      else trs)
      in filter (\<lambda>r. r \<noteq> headerRow \<and> length (querySelectorAll doc r (tags [''td'', ''th''])) > 0)
           bodyRows)"

definition colIndex :: "jsstring list \<Rightarrow> regex \<Rightarrow> nat option" where
  "colIndex headerKeys re = findIndex (rtest re) headerKeys"

definition getCol :: "jsstring list \<Rightarrow> nat option \<Rightarrow> jsstring" where
  "getCol cells idx =
     (case idx of
        None \<Rightarrow> []
      | Some i \<Rightarrow> normalizeText (case at cells i of None \<Rightarrow> [] | Some c \<Rightarrow> c))"

text \<open>One data row: the issue it yields, or nothing for a row that is skipped.\<close>

definition rowIssue :: "Platform \<Rightarrow> jsstring list \<Rightarrow> jsstring \<Rightarrow> jsstring list \<Rightarrow> ParsedIssue option" where
  "rowIssue pf headerKeys sourceFile' cells =
     (let severityIdx = colIndex headerKeys severityHeader;
          occurrencesIdx =
            colIndex headerKeys
              (Alts [S ''occurrences'', S ''occurrence'', S ''instances'', S ''instance'',
                     S ''count'', S ''violations'', S ''items'']);
          titleIdx =
            colIndex headerKeys
              (Alts [S ''title'', S ''issue'', S ''problem'', S ''summary'', S ''rule'']);
          descriptionIdx = colIndex headerKeys descriptionHeader;
          wcagIdx = colIndex headerKeys (Alts [S ''wcag'', S ''success criterion'', S ''sc'']);
          ruleIdx =
            colIndex headerKeys
              (Alts [S ''rule id'', S ''ruleid'', S ''rule'', S ''check'', S ''code'']);
          pageIdx = colIndex headerKeys (Alts [S ''page'', S ''url'', S ''screen'', S ''route'']);
          severityRaw = getCol cells severityIdx;
          occ = parseOccurrences (getCol cells occurrencesIdx);
          title' = orElse (getCol cells titleIdx) (orElse (getCol cells descriptionIdx) (js ''Issue''));
          description' = orElse (getCol cells descriptionIdx) (orElse (getCol cells titleIdx) [])
      in if severityRaw = [] \<and> description' = [] then None
         else Some \<lparr> title = title',
                     description = description',
                     severity = normalizeSeverity pf severityRaw,
                     severityOriginal = orUndefined severityRaw,
                     occurrences = occ,
                     wcag = orUndefined (getCol cells wcagIdx),
                     ruleId = orUndefined (getCol cells ruleIdx),
                     page = orUndefined (getCol cells pageIdx),
                     exampleSnippet = None,
                     sourceFile = sourceFile' \<rparr>)"

definition rowCells :: "node \<Rightarrow> path \<Rightarrow> jsstring list" where
  "rowCells doc r = map (getCellText doc) (querySelectorAll doc r (tags [''td'', ''th'']))"

text \<open>
  \<open>parseTableIssues\<close>.  The header row is read without a test for \<open>undefined\<close>, which
  would raise if the table had rows and none of the three ways found one.
\<close>

definition parseTableIssues :: "Platform \<Rightarrow> node \<Rightarrow> path \<Rightarrow> jsstring \<Rightarrow> error + ParsedIssue list" where
  "parseTableIssues pf doc table sourceFile' =
     (if length (querySelectorAll doc table (tags [''tr''])) = 0 then Inr []
      else
        (case tableHeaderRow doc table of
           None \<Rightarrow> Inl TypeError
         | Some headerRow \<Rightarrow>
             (let headerCells = rowCells doc headerRow;
                  headerKeys = map (toHeaderKey pf) headerCells
              in if \<not> headerLooksLikeIssuesTable headerKeys then Inr []
                 else Inr (List.map_filter (\<lambda>r. rowIssue pf headerKeys sourceFile' (rowCells doc r))
                             (tableDataRows doc table headerRow)))))"

section \<open>Heuristic fallback extractor\<close>

definition severityMention :: regex where
  "severityMention =
     Seqs [Alts [SI ''severity'', SI ''impact''], Star (Ch CSpace),
           Opt (Ch (CUnion (CChar 58) (CChar 45))), Star (Ch CSpace),
           Grp 1 (Alts [SI ''critical'', SI ''serious'', SI ''high'', SI ''moderate'',
                        SI ''medium'', SI ''minor'', SI ''low''])]"

definition heuristicIssue :: "Platform \<Rightarrow> node \<Rightarrow> jsstring \<Rightarrow> path \<Rightarrow> ParsedIssue option" where
  "heuristicIssue pf doc sourceFile' el =
     (let text = normalizeTextOpt (textOf doc el) in
      if text = [] then None
      else if \<not> rtest (Alts [SI ''severity'', SI ''impact'']) text then None
      else
        (case rexec severityMention text of
           None \<Rightarrow> None
         | Some (pre, m, st) \<Rightarrow>
             (let heading =
                    (case querySelector doc el (tags [''h1'', ''h2'', ''h3'', ''h4'', ''h5'']) of
                       None \<Rightarrow> None | Some h \<Rightarrow> textOf doc h);
                  title' = orElse (normalizeTextOpt heading) (js ''Issue'');
                  description' = take 400 text
              in Some \<lparr> title = title',
                         description = description',
                         severity = normalizeSeverity pf (case capture 1 st of None \<Rightarrow> [] | Some g \<Rightarrow> g),
                         severityOriginal = capture 1 st,
                         occurrences = 1,
                         wcag = None,
                         ruleId = None,
                         page = None,
                         exampleSnippet = None,
                         sourceFile = sourceFile' \<rparr>)))"

definition heuristicKey :: "ParsedIssue \<Rightarrow> jsstring" where
  "heuristicKey i = severityText (severity i) @ js ''|'' @ title i @ js ''|'' @ description i"

text \<open>The filter with the set \<open>seen\<close>: an issue is kept when its key is new.\<close>

fun dedupeSeen :: "jsstring list \<Rightarrow> ParsedIssue list \<Rightarrow> ParsedIssue list" where
  "dedupeSeen seen [] = []"
| "dedupeSeen seen (i # is) =
     (if heuristicKey i \<in> set seen then dedupeSeen seen is
      else i # dedupeSeen (heuristicKey i # seen) is)"

definition parseHeuristicIssues :: "Platform \<Rightarrow> node \<Rightarrow> jsstring \<Rightarrow> ParsedIssue list" where
  "parseHeuristicIssues pf doc sourceFile' =
     dedupeSeen []
       (List.map_filter (heuristicIssue pf doc sourceFile')
          (docQuerySelectorAll doc (tags [''section'', ''article'', ''li'', ''div''])))"

section \<open>Category-card extractor\<close>

definition violationStart :: regex where
  "violationStart = Seqs [Bol, Opt (Seqs [SI ''potential'', Plus (Ch CSpace)]), SI ''violation'', WordB]"

definition potentialStart :: regex where
  "potentialStart = Seqs [Bol, SI ''potential'', Plus (Ch CSpace), SI ''violation'', WordB]"

definition ariaPattern :: regex where
  "ariaPattern =
     Seqs [Bol, Opt (Grp 1 (Seqs [SI ''potential'', Plus (Ch CSpace)])), SI ''violation'',
           Opt (S ''.''), Star (Ch CSpace), Grp 2 (LazyStar (Ch CDot)),
           Opt (Seqs [Star (Ch CSpace), S ''('', Grp 3 (Plus (Ch CDigit)), Plus (Ch CSpace),
                      SI ''instance'', Opt (SI ''s''), S '')'']),
           Star (Ch CSpace), Eol]"

text \<open>The suffix \<open>- (N instances)\<close>, with a hyphen or the dash U+2013.\<close>

definition instancesSuffix :: regex where
  "instancesSuffix =
     Seqs [Star (Ch CSpace), Ch (CUnion (CChar 8211) (CChar 45)), Star (Ch CSpace), S ''('',
           Plus (Ch CDigit), Plus (Ch CSpace), SI ''instance'', Opt (SI ''s''), S '')'',
           Star (Ch CSpace), Eol]"

text \<open>The message and the count that the label declares.\<close>

definition fromAriaMessage :: "jsstring \<Rightarrow> jsstring" where
  "fromAriaMessage aria =
     normalizeText (case rexec ariaPattern aria of
                      None \<Rightarrow> []
                    | Some (pre, mt, st) \<Rightarrow> (case capture 2 st of None \<Rightarrow> [] | Some g \<Rightarrow> g))"

definition fromAriaOccurrences :: "jsstring \<Rightarrow> int option" where
  "fromAriaOccurrences aria =
     (case rexec ariaPattern aria of
        None \<Rightarrow> None
      | Some (pre, mt, st) \<Rightarrow>
          (case capture 3 st of None \<Rightarrow> None | Some g \<Rightarrow> if g \<noteq> [] then parseInt g else None))"

text \<open>The selector \<open>.col-[title]\<close> of the visible title of a card.\<close>

definition titleSelector :: selector where
  "titleSelector = [[[HasClass (js ''col-''), HasAttr (js ''title'')]]]"

text \<open>
  The description of a card: the text of its visible title, or the message of the label
  if the card has no visible title or an empty one; a suffix \<open>- (N instances)\<close> is cut.
\<close>

definition cardDescription :: "node \<Rightarrow> path \<Rightarrow> jsstring \<Rightarrow> jsstring" where
  "cardDescription doc el aria =
     (let visible =
            normalizeTextOpt
              (case querySelector doc el titleSelector of None \<Rightarrow> None | Some t \<Rightarrow> textOf doc t);
          d = (if visible = [] then fromAriaMessage aria else visible)
      in replaceFirst instancesSuffix [] d)"

definition cardOccurrences :: "jsstring \<Rightarrow> jsstring \<Rightarrow> int" where
  "cardOccurrences aria description' =
     (case fromAriaOccurrences aria of
        None \<Rightarrow> parseOccurrences description'
      | Some n \<Rightarrow> if n \<noteq> 0 \<and> isFinite n \<and> n > 0 then n else parseOccurrences description')"

text \<open>The selector \<open>ul[aria-label="Instances"] li code\<close> of the snippets of a card.\<close>

definition instancesSelector :: selector where
  "instancesSelector =
     [[[Tag (js ''ul''), AttrEq (js ''aria-label'') (js ''Instances'')],
       [Tag (js ''li'')], [Tag (js ''code'')]]]"

definition instanceSnippets :: "Platform \<Rightarrow> node \<Rightarrow> path \<Rightarrow> jsstring list" where
  "instanceSnippets pf doc el =
     filter (\<lambda>s. s \<noteq> [] \<and> isUsefulAltExampleSnippet pf s)
       (map (\<lambda>c. clampSnippet (case textOf doc c of None \<Rightarrow> [] | Some t \<Rightarrow> t))
          (querySelectorAll doc el instancesSelector))"

text \<open>The issues one element with an \<open>aria-label\<close> contributes (one round of the loop).\<close>

definition cardIssues :: "Platform \<Rightarrow> node \<Rightarrow> jsstring \<Rightarrow> jsstring option \<Rightarrow> path \<Rightarrow> ParsedIssue list" where
  "cardIssues pf doc sourceFile' pageUrl el =
     (let aria = normalizeTextOpt (getAttribute doc el (js ''aria-label'')) in
      if aria = [] then []
      else if \<not> rtest violationStart aria then []
      else
        (let isPotential = rtest potentialStart aria;
             description' = cardDescription doc el aria;
             occ = cardOccurrences aria description'
         in if description' = [] then []
            else
              (let title' = (if length description' > 90 then take 87 description' @ [ellipsis]
                             else description');
                   wcag' = extractBestWcagLabelFromAncestors doc el;
                   wantsInstances = isAltTextRelated pf description';
                   sev = (if isPotential then Moderate else Critical)
               in if wantsInstances then
                    (let snippets = instanceSnippets pf doc el;
                         known = int (length snippets);
                         remainder = max 0 (num (occ - known))
                     in map (\<lambda>snip. \<lparr> title = title', description = description', severity = sev,
                                       severityOriginal = None, occurrences = 1, wcag = wcag',
                                       ruleId = None, page = pageUrl, exampleSnippet = Some snip,
                                       sourceFile = sourceFile' \<rparr>) snippets @
                        (if remainder > 0 then
                           [\<lparr> title = title',
                              description = description' @ js '' (Additional '' @ showNumber pf remainder @
                                js '' instance(s) not included in the HTML export)'',
                              severity = sev, severityOriginal = None, occurrences = remainder,
                              wcag = wcag', ruleId = None, page = pageUrl, exampleSnippet = None,
                              sourceFile = sourceFile' \<rparr>]
                         else []))
                  else
                    [\<lparr> title = title', description = description', severity = sev,
                       severityOriginal = None, occurrences = occ, wcag = wcag', ruleId = None,
                       page = pageUrl, exampleSnippet = None, sourceFile = sourceFile' \<rparr>])))"

definition parseCategoriesCardIssues :: "Platform \<Rightarrow> node \<Rightarrow> jsstring \<Rightarrow> jsstring option \<Rightarrow> ParsedIssue list" where
  "parseCategoriesCardIssues pf doc sourceFile' pageUrl =
     concat (map (cardIssues pf doc sourceFile' pageUrl)
               (docQuerySelectorAll doc [[[HasAttr (js ''aria-label'')]]]))"


section \<open>Parsing one report\<close>

text \<open>The dash U+2014 of the titles of synthetic issues.\<close>

definition emDash :: jschar where
  "emDash = 8212"

definition collapsedNote :: jsstring where
  "collapsedNote =
     js ''Count taken from the WCAG breakdown in the Stark report. Detailed issue cards were not present in the HTML export (often because the section was collapsed).''"

record Covered =
  coveredFailures :: int
  coveredPotentials :: int

definition coveredStep :: "(jsstring \<times> Covered) list \<Rightarrow> ParsedIssue \<Rightarrow> (jsstring \<times> Covered) list" where
  "coveredStep covered i =
     (let w = normalizeTextOpt (wcag i) in
      if w = [] then covered
      else
        (let existing = (case map_of covered w of
                           None \<Rightarrow> \<lparr> coveredFailures = 0, coveredPotentials = 0 \<rparr>
                         | Some e \<Rightarrow> e);
             updated =
               (if severity i = Critical
                then existing \<lparr> coveredFailures := num (coveredFailures existing + occurrences i) \<rparr>
                else if severity i = Moderate
                then existing \<lparr> coveredPotentials := num (coveredPotentials existing + occurrences i) \<rparr>
                else existing)
         in mapSet w updated covered))"

text \<open>The synthetic issues for one criterion of the breakdown.\<close>

definition synthFor :: "(jsstring \<times> Covered) list \<Rightarrow> jsstring option \<Rightarrow> jsstring
                          \<Rightarrow> WcagCriterionTotals \<Rightarrow> ParsedIssue list" where
  "synthFor covered pageUrl sourceFile' c =
     (let existing = (case map_of covered (wcagLabel c) of
                        None \<Rightarrow> \<lparr> coveredFailures = 0, coveredPotentials = 0 \<rparr>
                      | Some e \<Rightarrow> e);
          missingFailures = max 0 (num (failures c - coveredFailures existing));
          missingPotentials = max 0 (num (potentials c - coveredPotentials existing))
      in (if missingFailures > 0 then
            [\<lparr> title = js ''WCAG '' @ wcagLabel c @ js '' '' @ [emDash] @
                         js '' Violations (details not in export)'',
               description = collapsedNote,
               severity = Critical, severityOriginal = None, occurrences = missingFailures,
               wcag = Some (wcagLabel c), ruleId = None, page = pageUrl, exampleSnippet = None,
               sourceFile = sourceFile' \<rparr>]
          else []) @
         (if missingPotentials > 0 then
            [\<lparr> title = js ''WCAG '' @ wcagLabel c @ js '' '' @ [emDash] @
                         js '' Potential violations (details not in export)'',
               description = collapsedNote,
               severity = Moderate, severityOriginal = None, occurrences = missingPotentials,
               wcag = Some (wcagLabel c), ruleId = None, page = pageUrl, exampleSnippet = None,
               sourceFile = sourceFile' \<rparr>]
          else []))"

definition gapFill :: "ParsedIssue list \<Rightarrow> WcagCriterionTotals list \<Rightarrow> jsstring option \<Rightarrow> jsstring
                         \<Rightarrow> ParsedIssue list" where
  "gapFill categoryIssues wcagBreakdown pageUrl sourceFile' =
     (let covered = foldl coveredStep [] categoryIssues
      in concat (map (synthFor covered pageUrl sourceFile') wcagBreakdown))"

text \<open>The header texts that the debug record keeps for a table.\<close>

definition debugHeaders :: "node \<Rightarrow> path \<Rightarrow> jsstring list" where
  "debugHeaders doc t =
     (let headerRow =
            (case tHeadFirstRow doc t of
               Some r \<Rightarrow> Some r
             | None \<Rightarrow>
                 (case querySelector doc t [[[Tag (js ''tr''), HasDescendant (js ''th'')]]] of
                    Some r \<Rightarrow> Some r
                  | None \<Rightarrow> querySelector doc t (tags [''tr''])))
      in case headerRow of
           None \<Rightarrow> []
         | Some r \<Rightarrow> map (\<lambda>c. normalizeTextOpt (textOf doc c))
                       (querySelectorAll doc r (tags [''th'', ''td''])))"

text \<open>
  One round of the loop over the tables.  The state is the debug record and the issues
  so far; an exception raised in a round ends the loop.
\<close>

definition tableStep :: "Platform \<Rightarrow> node \<Rightarrow> jsstring \<Rightarrow> error + (ParseDebugInfo \<times> ParsedIssue list)
                           \<Rightarrow> nat \<times> path \<Rightarrow> error + (ParseDebugInfo \<times> ParsedIssue list)" where
  "tableStep pf doc sourceFile' acc it =
     (case acc of
        Inl e \<Rightarrow> Inl e
      | Inr (dbg, found) \<Rightarrow>
          (let dbg1 = dbg \<lparr> tableHeaders := tableHeaders dbg @
                              [\<lparr> index = fst it, headers = debugHeaders doc (snd it),
                                 rows = length (querySelectorAll doc (snd it) (tags [''tr''])) \<rparr>] \<rparr>
           in case parseTableIssues pf doc (snd it) sourceFile' of
                Inl e \<Rightarrow> Inl e
              | Inr tableIssues \<Rightarrow>
                  Inr (if length tableIssues > 0
                       then dbg1 \<lparr> matchedTables := matchedTables dbg1 + 1 \<rparr>
                       else dbg1,
                       found @ tableIssues)))"

text \<open>The scheme of the severity labels found, written into the debug record at the end.\<close>

definition finish :: "Platform \<Rightarrow> ParseDebugInfo \<Rightarrow> ParsedIssue list \<Rightarrow> ParseResult" where
  "finish pf dbg found =
     (let dbg1 = dbg \<lparr> issuesExtracted := length found \<rparr>;
          severityLabels =
            uniq (filter (\<lambda>l. l \<noteq> [])
                    (map (\<lambda>i. normalizeText (case severityOriginal i of None \<Rightarrow> [] | Some l \<Rightarrow> l))
                       found));
          dbg2 = (if length severityLabels > 0
                  then dbg1 \<lparr> severityLabelsFound := Some severityLabels,
                              severityScheme := Some (inferSeveritySchemeFromRawLabels pf severityLabels) \<rparr>
                  else dbg1)
      in \<lparr> issues = found, debug = dbg2 \<rparr>)"

text \<open>What is done when no table yielded an issue: the cards with the gap filler, or the heuristic.\<close>

definition fallback :: "Platform \<Rightarrow> node \<Rightarrow> jsstring \<Rightarrow> jsstring option \<Rightarrow> WcagCriterionTotals list
                          \<Rightarrow> ParseDebugInfo \<Rightarrow> ParseDebugInfo \<times> ParsedIssue list" where
  "fallback pf doc sourceFile' pageUrl wcagBreakdown dbg =
     (let categoryIssues = parseCategoriesCardIssues pf doc sourceFile' pageUrl in
      if length categoryIssues > 0 \<or> length wcagBreakdown > 0 then
        (let dbg1 = (if length categoryIssues > 0
                     then dbg \<lparr> warnings := warnings dbg @
                            [js ''No issue tables matched; parsed Categories-style issue cards.''] \<rparr>
                     else dbg);
             dbg2 = (if length wcagBreakdown > 0
                     then dbg1 \<lparr> warnings := warnings dbg1 @
                            [js ''WCAG breakdown counts detected; using them to ensure totals align even if sections are collapsed.''] \<rparr>
                     else dbg1)
         in if length wcagBreakdown > 0 then
              (let synth = gapFill categoryIssues wcagBreakdown pageUrl sourceFile' in
               if length synth > 0
               then (dbg2 \<lparr> warnings := warnings dbg2 @
                       [js ''Added '' @ showNat (length synth) @
                        js '' synthetic issue(s) to account for collapsed sections so totals match the report.''] \<rparr>,
                     categoryIssues @ synth)
               else (dbg2, categoryIssues))
            else (dbg2, categoryIssues))
      else
        (dbg \<lparr> warnings := warnings dbg @ [js ''No issue tables matched; using fallback heuristic.''] \<rparr>,
         parseHeuristicIssues pf doc sourceFile'))"

text \<open>The debug record before the loop over the tables.\<close>

definition startDebug :: "node \<Rightarrow> jsstring option \<Rightarrow> WcagCriterionTotals list \<Rightarrow> nat
                            \<Rightarrow> ParseDebugInfo" where
  "startDebug doc pageUrl wcagBreakdown tableCount =
     (let debug0 = \<lparr> tablesFound = 0, tableHeaders = [], matchedTables = 0, issuesExtracted = 0,
                      reportTotals = None, wcagBreakdownTotals = None, severityScheme = None,
                      severityLabelsFound = None, warnings = [] \<rparr>;
          totals = extractBreakdownTotals doc;
          debug1 = (if violations totals \<noteq> None \<or> potentialViolations totals \<noteq> None
                    then debug0 \<lparr> reportTotals := Some totals \<rparr> else debug0);
          debug2 = (if length wcagBreakdown > 0
                    then debug1 \<lparr> wcagBreakdownTotals :=
                           Some \<lparr> criteriaWithCounts = length wcagBreakdown,
                                  sumFailures = foldl (\<lambda>acc c. num (acc + failures c)) 0 wcagBreakdown,
                                  sumPotentials = foldl (\<lambda>acc c. num (acc + potentials c)) 0 wcagBreakdown \<rparr> \<rparr>
                    else debug1);
          debug3 = (case pageUrl of
                      None \<Rightarrow> debug2
                    | Some u \<Rightarrow>
                        if u \<noteq> []
                        then debug2 \<lparr> warnings := warnings debug2 @ [js ''Detected page URL: '' @ u] \<rparr>
                        else debug2)
      in debug3 \<lparr> tablesFound := tableCount \<rparr>)"

text \<open>The part of \<open>parseStarkHtmlReport\<close> after the document has been obtained.\<close>

definition parseDocument :: "Platform \<Rightarrow> node \<Rightarrow> jsstring \<Rightarrow> error + ParseResult" where
  "parseDocument pf doc sourceFile' =
     (let wcagBreakdown = extractWcagBreakdownTotals doc;
          pageUrl = extractPrimaryPageUrl doc;
          tables = docQuerySelectorAll doc (tags [''table''])
      in case foldl (tableStep pf doc sourceFile')
                (Inr (startDebug doc pageUrl wcagBreakdown (length tables), []))
                (zip [0..<length tables] tables) of
           Inl e \<Rightarrow> Inl e
         | Inr (debug5, found) \<Rightarrow>
             if length found = 0
             then (case fallback pf doc sourceFile' pageUrl wcagBreakdown debug5 of
                     (debug6, found') \<Rightarrow> Inr (finish pf debug6 found'))
             else Inr (finish pf debug5 found))"

text \<open>
  \<open>parseStarkHtmlReport\<close>.  The parser of the platform is a parameter: it gives the
  document, or \<open>None\<close> when it raises.
\<close>

definition parseStarkHtmlReport :: "Platform \<Rightarrow> (jsstring \<Rightarrow> node option) \<Rightarrow> jsstring \<Rightarrow> jsstring
                                      \<Rightarrow> error + ParseResult" where
  "parseStarkHtmlReport pf domParser html sourceFile' =
     (case domParser html of
        None \<Rightarrow>
          Inr \<lparr> issues = [],
                debug = \<lparr> tablesFound = 0, tableHeaders = [], matchedTables = 0, issuesExtracted = 0,
                          reportTotals = None, wcagBreakdownTotals = None, severityScheme = None,
                          severityLabelsFound = None,
                          warnings = [js ''DOMParser failed to parse HTML.''] \<rparr> \<rparr>
      | Some doc \<Rightarrow> parseDocument pf doc sourceFile')"

section \<open>Consolidation engine\<close>

text \<open>The grouping key of an issue.\<close>

definition issueKey :: "Platform \<Rightarrow> ParsedIssue \<Rightarrow> jsstring" where
  "issueKey pf issue =
     (let title' = orElse (normalizeText (title issue)) (js ''Issue'');
          description' = normalizeText (description issue);
          ruleId' = normalizeTextOpt (ruleId issue);
          wcag' = normalizeTextOpt (wcag issue)
      in toLowerCase pf (orElse ruleId' [] @ js ''|'' @ orElse wcag' [] @ js ''|'' @ title' @
                      js ''|'' @ description'))"

text \<open>The copy of an issue that is stored in its group.\<close>

definition normalized :: "ParsedIssue \<Rightarrow> ParsedIssue" where
  "normalized issue =
     issue \<lparr> title := orElse (normalizeText (title issue)) (js ''Issue''),
             description := normalizeText (description issue),
             ruleId := orUndefined (normalizeTextOpt (ruleId issue)),
             wcag := orUndefined (normalizeTextOpt (wcag issue)) \<rparr>"

definition groupStep :: "Platform \<Rightarrow> (jsstring \<times> ParsedIssue list) list \<Rightarrow> ParsedIssue
                           \<Rightarrow> (jsstring \<times> ParsedIssue list) list" where
  "groupStep pf m issue =
     (case map_of m (issueKey pf issue) of
        Some existing \<Rightarrow> mapSet (issueKey pf issue) (existing @ [normalized issue]) m
      | None \<Rightarrow> mapSet (issueKey pf issue) [normalized issue] m)"

definition consolidateGroup :: "ParsedIssue list \<Rightarrow> ConsolidatedIssue" where
  "consolidateGroup issues' =
     (let pages' = uniq (filter (\<lambda>p. p \<noteq> []) (map (\<lambda>i. normalizeTextOpt (page i)) issues'));
          sourceFiles' = uniq (map sourceFile issues');
          occ = foldl (\<lambda>acc i. num (acc + (if isFinite (occurrences i) then occurrences i else 1))) 0 issues';
          snippets =
            take 8 (uniq (filter (\<lambda>s. s \<noteq> [])
                            (map (\<lambda>i. clampSnippet (case exampleSnippet i of None \<Rightarrow> [] | Some s \<Rightarrow> s))
                               issues')))
      in \<lparr> cTitle = (case issues' of [] \<Rightarrow> js ''Issue'' | i # _ \<Rightarrow> title i),
           cDescription = (case issues' of [] \<Rightarrow> [] | i # _ \<Rightarrow> description i),
           cSeverity = pickHighestSeverity (map severity issues'),
           cWcag = (case issues' of [] \<Rightarrow> None | i # _ \<Rightarrow> wcag i),
           cRuleId = (case issues' of [] \<Rightarrow> None | i # _ \<Rightarrow> ruleId i),
           cOccurrences = occ,
           pages = pages',
           sourceFiles = sourceFiles',
           exampleSnippets = (if length snippets > 0 then Some snippets else None) \<rparr>)"

definition compareConsolidated :: "ConsolidatedIssue \<Rightarrow> ConsolidatedIssue \<Rightarrow> int" where
  "compareConsolidated a b =
     (let sev = SEVERITY_ORDER (cSeverity b) - SEVERITY_ORDER (cSeverity a)
      in if sev \<noteq> 0 then sev else num (cOccurrences b - cOccurrences a))"

text \<open>The map after the grouping loop, in insertion order.\<close>

definition grouped :: "Platform \<Rightarrow> ParsedIssue list \<Rightarrow> (jsstring \<times> ParsedIssue list) list" where
  "grouped pf rawIssues = foldl (groupStep pf) [] rawIssues"

definition consolidateIssues :: "Platform \<Rightarrow> ParsedIssue list \<Rightarrow> ConsolidatedIssue list" where
  "consolidateIssues pf rawIssues =
     sortBy compareConsolidated (map (\<lambda>(k, g). consolidateGroup g) (grouped pf rawIssues))"

section \<open>Notions used in the statements\<close>

text \<open>The issues a table yields (none if reading the table raises).\<close>

definition tableIssuesOf :: "Platform \<Rightarrow> node \<Rightarrow> jsstring \<Rightarrow> path \<Rightarrow> ParsedIssue list" where
  "tableIssuesOf pf doc src t = (case parseTableIssues pf doc t src of Inr xs \<Rightarrow> xs | Inl e \<Rightarrow> [])"

text \<open>The issues of the strategies that are tried when no table yields an issue.\<close>

definition fallbackIssues :: "Platform \<Rightarrow> node \<Rightarrow> jsstring \<Rightarrow> ParsedIssue list" where
  "fallbackIssues pf doc src =
     (let pageUrl = extractPrimaryPageUrl doc;
          wcagBreakdown = extractWcagBreakdownTotals doc;
          cards = parseCategoriesCardIssues pf doc src pageUrl
      in if cards \<noteq> [] \<or> wcagBreakdown \<noteq> []
         then cards @ gapFill cards wcagBreakdown pageUrl src
         else parseHeuristicIssues pf doc src)"








text \<open>
  Scheme inference in the words of the specification: a label matches a pattern when
  the pattern occurs anywhere in its lower-case text.
\<close>

definition labelMatches :: "Platform \<Rightarrow> string list \<Rightarrow> jsstring \<Rightarrow> bool" where
  "labelMatches pf ws l = rtest (Alts (map S ws)) (toLowerCase pf l)"

definition inferSchemeSpec :: "Platform \<Rightarrow> jsstring list \<Rightarrow> SeverityScheme" where
  "inferSchemeSpec pf labels =
     (if list_ex (labelMatches pf [''high'', ''medium'', ''low'']) labels \<and>
         \<not> list_ex (labelMatches pf [''serious'', ''moderate'', ''minor'']) labels then Hml
      else if list_ex (labelMatches pf [''serious'', ''moderate'', ''minor'']) labels \<or>
              list_ex (labelMatches pf [''critical'']) labels then Axe
      else UnknownScheme)"

text \<open>A batch of labels has a word when the pattern matches one of its normalized labels.\<close>

definition hasWord :: "Platform \<Rightarrow> regex \<Rightarrow> jsstring list \<Rightarrow> bool" where
  "hasWord pf re labels = list_ex (\<lambda>l. rtest re (toLowerCase pf (normalizeText l))) labels"

section \<open>Example inputs\<close>

text \<open>
  The platform of the examples.  Their texts are ASCII and their counts are small, so
  that neither of its functions is consulted.
\<close>

definition exPlatform :: Platform where
  "exPlatform = \<lparr> caseMapping = (\<lambda>s. s), bigNumberText = (\<lambda>n. []) \<rparr>"

text \<open>
  A report with one table: a header row \<open>Severity\<close>, \<open>Description\<close> and one data row
  \<open>Critical\<close>, \<open>Images missing alt text\<close>.
\<close>

definition exTableDoc :: node where
  "exTableDoc =
     Element (js ''html'') []
       [Element (js ''head'') [] [],
        Element (js ''body'') []
          [Element (js ''table'') []
             [Element (js ''tbody'') []
                [Element (js ''tr'') []
                   [Element (js ''th'') [] [Text (js ''Severity'')],
                    Element (js ''th'') [] [Text (js ''Description'')]],
                 Element (js ''tr'') []
                   [Element (js ''td'') [] [Text (js ''Critical'')],
                    Element (js ''td'') [] [Text (js ''Images missing alt text'')]]]]]]"

text \<open>
  Three raw issues: the first two differ in white space, severity, page and source file
  only; the third has another title.
\<close>

definition exIssueA :: ParsedIssue where
  "exIssueA = \<lparr> title = js ''t'', description = js ''d'', severity = Minor,
                 severityOriginal = None, occurrences = 2, wcag = None, ruleId = None,
                 page = Some (js '' p1''), exampleSnippet = None, sourceFile = js ''a'' \<rparr>"

definition exIssueB :: ParsedIssue where
  "exIssueB = \<lparr> title = js '' t'', description = js ''d '', severity = Serious,
                 severityOriginal = None, occurrences = 3, wcag = None, ruleId = None,
                 page = Some (js ''p2''), exampleSnippet = None, sourceFile = js ''b'' \<rparr>"

definition exIssueC :: ParsedIssue where
  "exIssueC = \<lparr> title = js ''u'', description = js ''d'', severity = Critical,
                 severityOriginal = None, occurrences = 1, wcag = None, ruleId = None,
                 page = None, exampleSnippet = None, sourceFile = js ''a'' \<rparr>"



text \<open>
  A report with one category card: the label declares five instances of a message
  about a missing alternative text, and the list of instances holds three snippets, two
  of which are image markup.
\<close>

definition exCardDoc :: node where
  "exCardDoc =
     Element (js ''html'') []
       [Element (js ''head'') [] [],
        Element (js ''body'') []
          [Element (js ''div'') [(js ''aria-label'', js ''Violation. Missing alt (5 instances)'')]
             [Element (js ''ul'') [(js ''aria-label'', js ''Instances'')]
                [Element (js ''li'') [] [Element (js ''code'') [] [Text (js ''<img src=a>'')]],
                 Element (js ''li'') [] [Element (js ''code'') [] [Text (js ''<a href=x>'')]],
                 Element (js ''li'') [] [Element (js ''code'') [] [Text (js ''<img src=b>'')]]]]]]"

text \<open>
  A report with one category card whose label is the same, and which shows a visible
  title that is not about an alternative text; the list of instances holds two
  snippets of image markup.
\<close>

definition exTitledCardDoc :: node where
  "exTitledCardDoc =
     Element (js ''html'') []
       [Element (js ''head'') [] [],
        Element (js ''body'') []
          [Element (js ''div'') [(js ''aria-label'', js ''Violation. Missing alt (5 instances)'')]
             [Element (js ''div'') [(js ''class'', js ''col-''), (js ''title'', js ''Decorative graphics'')]
                [Text (js ''Decorative graphics'')],
              Element (js ''ul'') [(js ''aria-label'', js ''Instances'')]
                [Element (js ''li'') [] [Element (js ''code'') [] [Text (js ''<img src=a>'')]],
                 Element (js ''li'') [] [Element (js ''code'') [] [Text (js ''<img src=b>'')]]]]]]"

text \<open>
  A report with a collapsed criterion: the WCAG breakdown shows four failures for
  \<open>1.1.1 Non-text Content\<close>, and there is no card.
\<close>

definition exBreakdownDoc :: node where
  "exBreakdownDoc =
     Element (js ''html'') []
       [Element (js ''head'') [] [],
        Element (js ''body'') []
          [Element (js ''ul'') []
             [Element (js ''li'') []
                [Element (js ''button'') []
                   [Element (js ''div'') [] [Text (js ''1.1.1 Non-text Content'')]],
                 Element (js ''div'') []
                   [Element (js ''svg'') [(js ''aria-label'', js ''Failures'')] [],
                    Element (js ''div'') [] [Text (js ''4'')]]]]]]"

section \<open>Evaluation\<close>

declare replaceFrom.simps [simp del]
declare showNat.simps [simp del]
declare bitLength.simps [simp del]

lemmas char_defs = isSpace_def isDigit_def isWordChar_def isLineTerminator_def eqI_def atBoundary_def

lemmas regex_defs = Plus_def Opt_def Seqs_def Alts_def S_def SI_def js_def
  rexec_def rtest_def match0_def replaceAll_def replaceFirst_def capture_def replaceFrom.simps

lemmas text_defs = collapseSpace_def trim_def normalizeText_def normalizeTextOpt_def
  toLowerCase_def passedGlued_def passedBoth_def passedAfter_def passedBefore_def

lemmas dom_defs = allElements_def descendants_def tagOf_def getAttribute_def textOf_def
  parentElement_def childrenNamed_def matchesSimple_def properAncestors_def matchesSelector_def
  docQuerySelectorAll_def querySelectorAll_def querySelector_def tags_def closest_def body_def at_def

section \<open>Numbers: rounding\<close>


lemma bitLength_le: "bitLength m \<le> k \<longleftrightarrow> m < 2 ^ k"
proof (induction m arbitrary: k rule: bitLength.induct)
  case (1 n)
  show ?case
  proof (cases "n = 0")
    case True
    then show ?thesis by (simp add: bitLength.simps)
  next
    case False
    show ?thesis
    proof (cases k)
      case 0
      with False show ?thesis by (simp add: bitLength.simps[of n])
    next
      case (Suc j)
      have "bitLength n \<le> Suc j \<longleftrightarrow> bitLength (n div 2) \<le> j"
        using False by (simp add: bitLength.simps[of n])
      also have "\<dots> \<longleftrightarrow> n div 2 < 2 ^ j" using 1[OF False, of j] .
      also have "\<dots> \<longleftrightarrow> n < 2 ^ Suc j" by auto
      finally show ?thesis using Suc by simp
    qed
  qed
qed

lemma bitLength_lower: "0 < m \<Longrightarrow> 2 ^ (bitLength m - 1) \<le> m"
proof -
  assume m: "0 < m"
  have "\<not> bitLength m \<le> bitLength m - 1"
  proof -
    have "bitLength m \<noteq> 0" using m by (simp add: bitLength.simps[of m])
    then show ?thesis by simp
  qed
  then show ?thesis unfolding bitLength_le by simp
qed

lemma roundNat_exact: "m mod 2 ^ (bitLength m - 53) = 0 \<Longrightarrow> roundNat m = m"
  by (simp add: roundNat_def Let_def mod_0_imp_dvd)

lemma roundNat_small: "m \<le> 2 ^ 53 \<Longrightarrow> roundNat m = m"
proof (rule roundNat_exact)
  assume le: "m \<le> 2 ^ 53"
  show "m mod 2 ^ (bitLength m - 53) = 0"
  proof (cases "m < 2 ^ 53")
    case True
    then have "bitLength m \<le> 53" by (simp only: bitLength_le)
    then show ?thesis by simp
  next
    case False
    with le have m: "m = 2 ^ 53" by simp
    have "m < 2 ^ 54" unfolding m by simp
    then have "bitLength m \<le> 54" by (simp only: bitLength_le)
    then have "bitLength m - 53 \<le> 53" by simp
    then have "(2::nat) ^ (bitLength m - 53) dvd 2 ^ 53" by (rule le_imp_power_dvd)
    then show ?thesis unfolding m[symmetric] by (simp add: m)
  qed
qed

lemma roundNat_pos: "0 < m \<Longrightarrow> 0 < roundNat m"
proof -
  assume m: "0 < m"
  let ?e = "bitLength m - 53"
  have "(2::nat) ^ ?e \<le> 2 ^ (bitLength m - 1)" by (rule power_increasing) simp_all
  also have "\<dots> \<le> m" by (rule bitLength_lower[OF m])
  finally have "0 < m div 2 ^ ?e" by (simp add: div_greater_zero_iff)
  then show ?thesis by (simp add: roundNat_def Let_def)
qed

lemma infinity_pos: "0 < infinity"
  by (simp add: infinity_def)

lemma num_small: "\<bar>n\<bar> \<le> 9007199254740992 \<Longrightarrow> num n = n"
proof -
  assume a: "\<bar>n\<bar> \<le> 9007199254740992"
  then have "nat \<bar>n\<bar> \<le> 2 ^ 53" by simp
  then have r: "roundNat (nat \<bar>n\<bar>) = nat \<bar>n\<bar>" by (rule roundNat_small)
  have "(2::int) ^ 53 < 2 ^ 1024" by (rule power_strict_increasing) simp_all
  with a have "\<bar>n\<bar> < infinity" by (simp add: infinity_def)
  then show ?thesis by (simp add: num_def r Let_def mult_sgn_abs)
qed

lemma isFinite_small: "\<bar>n\<bar> \<le> 9007199254740992 \<Longrightarrow> isFinite n"
proof -
  assume a: "\<bar>n\<bar> \<le> 9007199254740992"
  have "(2::int) ^ 53 < 2 ^ 1024" by (rule power_strict_increasing) simp_all
  with a show ?thesis by (simp add: isFinite_def infinity_def)
qed

lemma num_sgn: "sgn (num n) = sgn n"
proof (cases "n = 0")
  case True
  then show ?thesis by (simp add: num_def roundNat_def Let_def infinity_def)
next
  case False
  then have "0 < roundNat (nat \<bar>n\<bar>)" by (intro roundNat_pos) simp
  then show ?thesis using infinity_pos by (auto simp: num_def Let_def sgn_mult)
qed

lemma num_le0: "num n \<le> 0 \<longleftrightarrow> n \<le> 0"
  using num_sgn[of n] by (auto simp: sgn_if split: if_splits)

lemma num_pos: "0 < num n \<longleftrightarrow> 0 < n"
  using num_le0[of n] by auto




section \<open>Consolidation: order of the result\<close>

lemma SEVERITY_ORDER_inj: "SEVERITY_ORDER a = SEVERITY_ORDER b \<longleftrightarrow> a = b"
  by (cases a; cases b) simp_all

lemma compare_le_iff:
  "compareConsolidated a b \<le> 0 \<longleftrightarrow>
     SEVERITY_ORDER (cSeverity a) > SEVERITY_ORDER (cSeverity b) \<or>
     (cSeverity a = cSeverity b \<and> cOccurrences a \<ge> cOccurrences b)"
  unfolding compareConsolidated_def Let_def SEVERITY_ORDER_inj[symmetric] by (auto simp: num_le0)

lemma compare_total: "compareConsolidated a b \<le> 0 \<or> compareConsolidated b a \<le> 0"
  by (auto simp: compare_le_iff SEVERITY_ORDER_inj[symmetric])

lemma compare_trans:
  "compareConsolidated a b \<le> 0 \<Longrightarrow> compareConsolidated b c \<le> 0 \<Longrightarrow> compareConsolidated a c \<le> 0"
  by (auto simp: compare_le_iff)

lemma set_insertBy: "set (insertBy cmp x ys) = insert x (set ys)"
  by (induction ys) auto

lemma sorted_insertBy:
  assumes tot: "\<And>a b. cmp a b \<le> 0 \<or> cmp b a \<le> 0"
      and tr: "\<And>a b c. cmp a b \<le> 0 \<Longrightarrow> cmp b c \<le> 0 \<Longrightarrow> cmp a c \<le> 0"
  shows "sorted_wrt (\<lambda>a b. cmp a b \<le> 0) ys \<Longrightarrow> sorted_wrt (\<lambda>a b. cmp a b \<le> 0) (insertBy cmp x ys)"
proof (induction ys)
  case Nil
  then show ?case by simp
next
  case (Cons y ys)
  show ?case
  proof (cases "cmp x y \<le> 0")
    case True
    with Cons.prems tr show ?thesis by auto
  next
    case False
    with tot have "cmp y x \<le> 0" by blast
    with False Cons show ?thesis by (auto simp: set_insertBy)
  qed
qed

lemma sorted_sortBy:
  assumes tot: "\<And>a b. cmp a b \<le> 0 \<or> cmp b a \<le> 0"
      and tr: "\<And>a b c. cmp a b \<le> 0 \<Longrightarrow> cmp b c \<le> 0 \<Longrightarrow> cmp a c \<le> 0"
  shows "sorted_wrt (\<lambda>a b. cmp a b \<le> 0) (sortBy cmp xs)"
  unfolding sortBy_def
  by (induction xs) (auto intro: sorted_insertBy[OF tot tr])


text \<open>
  Claim C2.  The list that \<open>consolidateIssues\<close> returns is ordered by severity, highest
  first, and within one severity by occurrences, highest first: of two adjacent
  elements either the first has the strictly higher severity, or both have the same
  severity and the first has at least as many occurrences as the second.
\<close>

theorem consolidate_sorted:
  "Suc n < length (consolidateIssues pf raw) \<longrightarrow>
     SEVERITY_ORDER (cSeverity (consolidateIssues pf raw ! n)) >
       SEVERITY_ORDER (cSeverity (consolidateIssues pf raw ! Suc n)) \<or>
     (cSeverity (consolidateIssues pf raw ! n) = cSeverity (consolidateIssues pf raw ! Suc n) \<and>
      cOccurrences (consolidateIssues pf raw ! n) \<ge> cOccurrences (consolidateIssues pf raw ! Suc n))"
proof
  assume len: "Suc n < length (consolidateIssues pf raw)"
  have "sorted_wrt (\<lambda>a b. compareConsolidated a b \<le> 0) (consolidateIssues pf raw)"
    unfolding consolidateIssues_def
    by (rule sorted_sortBy) (use compare_total compare_trans in blast)+
  with len have "compareConsolidated (consolidateIssues pf raw ! n) (consolidateIssues pf raw ! Suc n) \<le> 0"
    by (auto simp: sorted_wrt_iff_nth_less)
  then show "SEVERITY_ORDER (cSeverity (consolidateIssues pf raw ! n)) >
       SEVERITY_ORDER (cSeverity (consolidateIssues pf raw ! Suc n)) \<or>
     (cSeverity (consolidateIssues pf raw ! n) = cSeverity (consolidateIssues pf raw ! Suc n) \<and>
      cOccurrences (consolidateIssues pf raw ! n) \<ge> cOccurrences (consolidateIssues pf raw ! Suc n))"
    by (simp add: compare_le_iff)
qed

section \<open>Consolidation: grouping\<close>



lemma keys_mapSet: "map fst (mapSet k v m) = (if k \<in> fst ` set m then map fst m else map fst m @ [k])"
  by (induction m) (auto simp: image_iff split: if_splits)

















lemma SEVERITY_ORDER_nonneg: "0 \<le> SEVERITY_ORDER v"
  by (cases v) simp_all





section \<open>Parsing one report: structure of the result\<close>

lemma parseTableIssues_total: "\<exists>xs. parseTableIssues pf doc t src = Inr xs"
proof (cases "querySelectorAll doc t (tags [''tr''])")
  case Nil
  then show ?thesis by (simp add: parseTableIssues_def)
next
  case (Cons r rs)
  then have "tableHeaderRow doc t \<noteq> None"
    by (simp add: tableHeaderRow_def Let_def at_def split: option.splits)
  then show ?thesis
    by (auto simp: parseTableIssues_def Let_def)
qed

lemma foldl_tableStep:
  "\<exists>dbg'. foldl (tableStep pf doc src) (Inr (dbg, found)) its =
            Inr (dbg', found @ concat (map (\<lambda>it. tableIssuesOf pf doc src (snd it)) its)) \<and>
          warnings dbg' = warnings dbg"
proof (induction its arbitrary: dbg found)
  case Nil
  then show ?case by simp
next
  case (Cons it its)
  obtain xs where xs: "parseTableIssues pf doc (snd it) src = Inr xs"
    using parseTableIssues_total by blast
  obtain dbg1 where step: "tableStep pf doc src (Inr (dbg, found)) it = Inr (dbg1, found @ xs)"
    and w: "warnings dbg1 = warnings dbg"
    by (simp add: tableStep_def Let_def xs)
  from Cons.IH[of dbg1 "found @ xs"] show ?case
    by (auto simp: step w tableIssuesOf_def xs)
qed

lemma map_snd_zip_same:
  "length xs = length ys \<Longrightarrow> map (\<lambda>it. f (snd it)) (zip xs ys) = map f ys"
  by (induction xs ys rule: list_induct2) auto

lemma gapFill_Nil: "gapFill cards [] p src = []"
  by (simp add: gapFill_def)

lemma snd_fallback:
  "snd (fallback pf doc src (extractPrimaryPageUrl doc) (extractWcagBreakdownTotals doc) dbg) =
     fallbackIssues pf doc src"
  by (auto simp: fallback_def fallbackIssues_def Let_def gapFill_Nil)

lemma issues_finish: "issues (finish pf dbg found) = found"
  by (simp add: finish_def Let_def)

lemma parseDocument_issues:
  "\<exists>r. parseDocument pf doc src = Inr r \<and>
       issues r =
         (if concat (map (tableIssuesOf pf doc src) (docQuerySelectorAll doc (tags [''table'']))) = []
          then fallbackIssues pf doc src
          else concat (map (tableIssuesOf pf doc src) (docQuerySelectorAll doc (tags [''table'']))))"
proof -
  let ?tables = "docQuerySelectorAll doc (tags [''table''])"
  let ?start = "startDebug doc (extractPrimaryPageUrl doc) (extractWcagBreakdownTotals doc) (length ?tables)"
  define found where "found = concat (map (tableIssuesOf pf doc src) ?tables)"
  have m: "map (\<lambda>it. tableIssuesOf pf doc src (snd it)) (zip [0..<length ?tables] ?tables) =
           map (tableIssuesOf pf doc src) ?tables"
    by (rule map_snd_zip_same) simp
  obtain dbg5 where f: "foldl (tableStep pf doc src) (Inr (?start, [])) (zip [0..<length ?tables] ?tables) =
                          Inr (dbg5, found)"
    using foldl_tableStep[of pf doc src ?start "[]" "zip [0..<length ?tables] ?tables"]
    unfolding m found_def by auto
  have "\<exists>r. parseDocument pf doc src = Inr r \<and>
             issues r = (if found = [] then fallbackIssues pf doc src else found)"
  proof (cases "found = []")
    case True
    have "parseDocument pf doc src =
            Inr (finish pf (fst (fallback pf doc src (extractPrimaryPageUrl doc) (extractWcagBreakdownTotals doc) dbg5))
                   (fallbackIssues pf doc src))"
      unfolding parseDocument_def Let_def f
      by (simp add: True case_prod_beta snd_fallback)
    then show ?thesis using True by (simp add: issues_finish)
  next
    case False
    have "parseDocument pf doc src = Inr (finish pf dbg5 found)"
      unfolding parseDocument_def Let_def f using False by simp
    then show ?thesis using False by (simp add: issues_finish)
  qed
  then show ?thesis unfolding found_def .
qed

text \<open>
  Claim C3.  \<open>parseStarkHtmlReport\<close> raises no exception: for every parser of the
  platform, input text and source identifier it returns a record of issues and debug
  information; and when the parser cannot produce a document, the issue list is empty
  and the debug record holds the warning about it.
\<close>

theorem parse_never_throws:
  "\<exists>r. parseStarkHtmlReport pf domParser html src = Inr r \<and>
       (domParser html = None \<longrightarrow>
          issues r = [] \<and> warnings (debug r) = [js ''DOMParser failed to parse HTML.''])"
proof (cases "domParser html")
  case None
  then show ?thesis by (simp add: parseStarkHtmlReport_def)
next
  case (Some doc)
  then show ?thesis using parseDocument_issues[of pf doc src] by (auto simp: parseStarkHtmlReport_def)
qed

text \<open>The hypothesis of claim C3 is met: a parser of the platform that fails.\<close>

theorem parse_never_throws_witness:
  "(\<lambda>h. None) ([] :: jsstring) = (None :: node option) \<and>
   (\<exists>r. parseStarkHtmlReport exPlatform (\<lambda>h. None) [] [] = Inr r \<and> issues r = [] \<and>
        warnings (debug r) = [js ''DOMParser failed to parse HTML.''])"
  using parse_never_throws[of exPlatform "\<lambda>h. None" "[]" "[]"] by simp

section \<open>Occurrence counts of parsed issues\<close>

lemma parseOccurrences_ge1: "1 \<le> parseOccurrences v"
  by (simp add: parseOccurrences_def Let_def split: option.splits)

lemma set_map_filter: "set (List.map_filter f xs) = {y. \<exists>x \<in> set xs. f x = Some y}"
  by (induction xs) (auto split: option.splits)

lemma rowIssue_occ: "rowIssue pf hk src cells = Some i \<Longrightarrow> 1 \<le> occurrences i"
  by (auto simp: rowIssue_def Let_def parseOccurrences_ge1 split: if_splits)

lemma tableIssuesOf_occ: "i \<in> set (tableIssuesOf pf doc src t) \<Longrightarrow> 1 \<le> occurrences i"
  by (auto simp: tableIssuesOf_def parseTableIssues_def Let_def set_map_filter rowIssue_occ
           split: if_splits option.splits sum.splits)

lemma cardOccurrences_ge1: "1 \<le> cardOccurrences aria d"
  by (simp add: cardOccurrences_def parseOccurrences_ge1 split: option.splits)

lemma cardIssues_occ: "i \<in> set (cardIssues pf doc src p el) \<Longrightarrow> 1 \<le> occurrences i"
  by (auto simp: cardIssues_def Let_def cardOccurrences_ge1 split: if_splits)

lemma cards_occ: "i \<in> set (parseCategoriesCardIssues pf doc src p) \<Longrightarrow> 1 \<le> occurrences i"
  by (auto simp: parseCategoriesCardIssues_def cardIssues_occ)

lemma synthFor_occ: "i \<in> set (synthFor covered p src c) \<Longrightarrow> 1 \<le> occurrences i"
  by (auto simp: synthFor_def Let_def split: if_splits)

lemma gapFill_occ: "i \<in> set (gapFill cards wb p src) \<Longrightarrow> 1 \<le> occurrences i"
  by (auto simp: gapFill_def Let_def synthFor_occ)

lemma set_dedupeSeen: "set (dedupeSeen seen xs) \<subseteq> set xs"
  by (induction xs arbitrary: seen) auto

lemma heuristicIssue_occ: "heuristicIssue pf doc src el = Some i \<Longrightarrow> occurrences i = 1"
  by (auto simp: heuristicIssue_def Let_def split: if_splits option.splits)

lemma heuristic_occ: "i \<in> set (parseHeuristicIssues pf doc src) \<Longrightarrow> 1 \<le> occurrences i"
proof -
  assume "i \<in> set (parseHeuristicIssues pf doc src)"
  then have "i \<in> set (List.map_filter (heuristicIssue pf doc src)
                        (docQuerySelectorAll doc (tags [''section'', ''article'', ''li'', ''div''])))"
    using set_dedupeSeen unfolding parseHeuristicIssues_def by blast
  then show ?thesis by (auto simp: set_map_filter dest: heuristicIssue_occ)
qed

lemma fallbackIssues_occ: "i \<in> set (fallbackIssues pf doc src) \<Longrightarrow> 1 \<le> occurrences i"
  by (auto simp: fallbackIssues_def Let_def cards_occ gapFill_occ heuristic_occ split: if_splits)

text \<open>
  Claim C5.  Every issue that \<open>parseStarkHtmlReport\<close> returns has at least one
  occurrence, whichever strategy produced it; and \<open>parseOccurrences\<close> gives 1 for an
  absent (empty) value and for a value in which no number is found.
\<close>

theorem parsed_occurrences_positive:
  "(\<exists>r. parseStarkHtmlReport pf domParser html src = Inr r \<and> (\<forall>i \<in> set (issues r). 1 \<le> occurrences i)) \<and>
   parseOccurrences [] = 1 \<and>
   (match0 (Plus (Ch CDigit)) (normalizeText v) = None \<longrightarrow> parseOccurrences v = 1)"
proof -
  have "\<exists>r. parseStarkHtmlReport pf domParser html src = Inr r \<and> (\<forall>i \<in> set (issues r). 1 \<le> occurrences i)"
  proof (cases "domParser html")
    case None
    then show ?thesis by (simp add: parseStarkHtmlReport_def)
  next
    case (Some doc)
    from parseDocument_issues[of pf doc src] obtain r where r: "parseDocument pf doc src = Inr r"
      and i: "issues r =
         (if concat (map (tableIssuesOf pf doc src) (docQuerySelectorAll doc (tags [''table'']))) = []
          then fallbackIssues pf doc src
          else concat (map (tableIssuesOf pf doc src) (docQuerySelectorAll doc (tags [''table'']))))"
      by blast
    have "\<forall>i \<in> set (issues r). 1 \<le> occurrences i"
      unfolding i by (auto simp: fallbackIssues_occ tableIssuesOf_occ)
    with r Some show ?thesis by (simp add: parseStarkHtmlReport_def)
  qed
  moreover have "parseOccurrences [] = 1"
    by (simp add: parseOccurrences_def Let_def normalizeText_def collapseSpace_def trim_def
          replaceAll_def replaceFrom.simps passedGlued_def passedBoth_def passedAfter_def
          passedBefore_def Plus_def Seqs_def SI_def js_def atBoundary_def)
  moreover have "match0 (Plus (Ch CDigit)) (normalizeText v) = None \<longrightarrow> parseOccurrences v = 1"
    by (simp add: parseOccurrences_def Let_def)
  ultimately show ?thesis by blast
qed

section \<open>The document tree: rows of a table\<close>

lemma nodeAt_append:
  "nodeAt n (p @ q) = (case nodeAt n p of None \<Rightarrow> None | Some m \<Rightarrow> nodeAt m q)"
proof (induction p arbitrary: n)
  case Nil
  then show ?case by simp
next
  case (Cons i p)
  then show ?case by (cases n) auto
qed

lemma set_elemPathsFrom:
  "set (elemPathsFrom k cs) = {(k + j) # q | j q. j < length cs \<and> q \<in> set (elemPaths (cs ! j))}"
proof (induction cs arbitrary: k)
  case Nil
  then show ?case by simp
next
  case (Cons c cs)
  show ?case
  proof (rule set_eqI, rule iffI)
    fix x assume "x \<in> set (elemPathsFrom k (c # cs))"
    then consider q where "x = k # q" "q \<in> set (elemPaths c)"
      | j q where "x = (Suc k + j) # q" "j < length cs" "q \<in> set (elemPaths (cs ! j))"
      using Cons.IH[of "Suc k"] by auto
    then show "x \<in> {(k + j) # q | j q. j < length (c # cs) \<and> q \<in> set (elemPaths ((c # cs) ! j))}"
    proof cases
      case 1
      then show ?thesis by (auto intro!: exI[of _ 0])
    next
      case 2
      then show ?thesis by (auto intro!: exI[of _ "Suc j"])
    qed
  next
    fix x assume "x \<in> {(k + j) # q | j q. j < length (c # cs) \<and> q \<in> set (elemPaths ((c # cs) ! j))}"
    then obtain j q where x: "x = (k + j) # q" and j: "j < length (c # cs)"
      and q: "q \<in> set (elemPaths ((c # cs) ! j))" by blast
    show "x \<in> set (elemPathsFrom k (c # cs))"
    proof (cases j)
      case 0
      with x q show ?thesis by simp
    next
      case (Suc j')
      with x j q have "x \<in> set (elemPathsFrom (Suc k) cs)"
        unfolding Cons.IH[of "Suc k"] by auto
      then show ?thesis by simp
    qed
  qed
qed

lemma elemPaths_complete:
  "nodeAt n q = Some (Element tg a cs) \<Longrightarrow> q \<in> set (elemPaths n)"
proof (induction q arbitrary: n)
  case Nil
  then show ?case by simp
next
  case (Cons i q)
  then obtain t' a' cs' where n: "n = Element t' a' cs'" and i: "i < length cs'"
    and sub: "nodeAt (cs' ! i) q = Some (Element tg a cs)"
    by (cases n) (auto split: if_splits)
  from Cons.IH[OF sub] have "q \<in> set (elemPaths (cs' ! i))" .
  with i have "i # q \<in> set (elemPathsFrom 0 cs')"
    unfolding set_elemPathsFrom by force
  then show ?case by (simp add: n)
qed

lemma descendants_complete:
  assumes "nodeAt doc (p @ q) = Some (Element tg a cs)" and "q \<noteq> []"
  shows "p @ q \<in> set (descendants doc p)"
proof -
  from assms(1) obtain n where n: "nodeAt doc p = Some n" and sub: "nodeAt n q = Some (Element tg a cs)"
    by (auto simp: nodeAt_append split: option.splits)
  from elemPaths_complete[OF sub] have "q \<in> set (elemPaths n)" .
  moreover from sub assms(2) obtain t' a' cs' where "n = Element t' a' cs'"
    by (cases n; cases q) auto
  ultimately have "q \<in> set (tl (elemPaths n))" using assms(2) by auto
  then show ?thesis by (simp add: descendants_def n)
qed

lemma matches_tag: "matchesSelector doc (tags [nm]) p \<longleftrightarrow> tagOf doc p = Some (js nm)"
  by (simp add: matchesSelector_def tags_def matchesSimple_def)

lemma tagOf_Some: "tagOf doc p = Some nm \<Longrightarrow> \<exists>a cs. nodeAt doc p = Some (Element nm a cs)"
  by (auto simp: tagOf_def split: option.splits node.splits)

lemma childrenNamed_sub:
  assumes "c \<in> set (childrenNamed doc p nm)"
  shows "\<exists>i. c = p @ [i] \<and> tagOf doc c = Some nm"
  using assms by (auto simp: childrenNamed_def split: option.splits node.splits)

lemma grandchild_rows:
  assumes b: "b \<in> set (childrenNamed doc t (js ''tbody''))"
      and d: "d \<in> set (childrenNamed doc b (js ''tr''))"
  shows "d \<in> set (querySelectorAll doc t (tags [''tr'']))"
proof -
  from childrenNamed_sub[OF b] obtain i where bi: "b = t @ [i]" by blast
  from childrenNamed_sub[OF d] obtain j where dj: "d = b @ [j]" and tg: "tagOf doc d = Some (js ''tr'')"
    by blast
  from tagOf_Some[OF tg] obtain a cs where "nodeAt doc (t @ [i, j]) = Some (Element (js ''tr'') a cs)"
    by (auto simp: bi dj)
  from descendants_complete[OF this] have "t @ [i, j] \<in> set (descendants doc t)" by simp
  then show ?thesis using tg by (simp add: querySelectorAll_def matches_tag bi dj)
qed

lemma dataRows_are_rows:
  "d \<in> set (tableDataRows doc t h) \<Longrightarrow> d \<in> set (querySelectorAll doc t (tags [''tr'']))"
  by (auto simp: tableDataRows_def Let_def grandchild_rows split: if_splits)

section \<open>A minimal table\<close>

lemma norm_Severity: "normalizeText (js ''Severity'') = js ''Severity''"
  by (simp add: char_defs regex_defs text_defs)
lemma norm_Description: "normalizeText (js ''Description'') = js ''Description''"
  by (simp add: char_defs regex_defs text_defs)
lemma norm_Critical: "normalizeText (js ''Critical'') = js ''Critical''"
  by (simp add: char_defs regex_defs text_defs)
lemma norm_Images: "normalizeText (js ''Images missing alt text'') = js ''Images missing alt text''"
  by (simp add: char_defs regex_defs text_defs)
lemma norm_empty: "normalizeText [] = []"
  by (simp add: char_defs regex_defs text_defs)

lemma key_Severity: "toHeaderKey pf (js ''Severity'') = js ''severity''"
  by (simp add: toHeaderKey_def char_defs regex_defs text_defs)
lemma key_Description: "toHeaderKey pf (js ''Description'') = js ''description''"
  by (simp add: toHeaderKey_def char_defs regex_defs text_defs)

lemma looks_like: "headerLooksLikeIssuesTable [js ''severity'', js ''description'']"
  by (simp add: headerLooksLikeIssuesTable_def uniq_def severityHeader_def descriptionHeader_def
        char_defs regex_defs)

lemma col_severity: "colIndex [js ''severity'', js ''description''] severityHeader = Some 0"
  by (simp add: colIndex_def severityHeader_def char_defs regex_defs)
lemma col_description: "colIndex [js ''severity'', js ''description''] descriptionHeader = Some 1"
  by (simp add: colIndex_def descriptionHeader_def char_defs regex_defs)
lemma col_occurrences:
  "colIndex [js ''severity'', js ''description'']
     (Alts [S ''occurrences'', S ''occurrence'', S ''instances'', S ''instance'',
            S ''count'', S ''violations'', S ''items'']) = None"
  by (simp add: colIndex_def char_defs regex_defs)
lemma col_title:
  "colIndex [js ''severity'', js ''description'']
     (Alts [S ''title'', S ''issue'', S ''problem'', S ''summary'', S ''rule'']) = None"
  by (simp add: colIndex_def char_defs regex_defs)
lemma col_wcag:
  "colIndex [js ''severity'', js ''description'']
     (Alts [S ''wcag'', S ''success criterion'', S ''sc'']) = Some 1"
  by (simp add: colIndex_def char_defs regex_defs)
lemma col_rule:
  "colIndex [js ''severity'', js ''description'']
     (Alts [S ''rule id'', S ''ruleid'', S ''rule'', S ''check'', S ''code'']) = None"
  by (simp add: colIndex_def char_defs regex_defs)
lemma col_page:
  "colIndex [js ''severity'', js ''description'']
     (Alts [S ''page'', S ''url'', S ''screen'', S ''route'']) = None"
  by (simp add: colIndex_def char_defs regex_defs)

lemma sev_Critical: "normalizeSeverity pf (js ''Critical'') = Critical"
  by (simp add: normalizeSeverity_def char_defs regex_defs text_defs)

lemma occ_empty: "parseOccurrences [] = 1"
  by (simp add: parseOccurrences_def norm_empty)

lemma js_nonempty: "js (c # s) \<noteq> []"
  by (simp add: js_def)

lemma exRow:
  "rowIssue pf [js ''severity'', js ''description''] src [js ''Critical'', js ''Images missing alt text''] =
     Some \<lparr> title = js ''Images missing alt text'', description = js ''Images missing alt text'',
            severity = Critical, severityOriginal = Some (js ''Critical''), occurrences = 1,
            wcag = Some (js ''Images missing alt text''), ruleId = None, page = None,
            exampleSnippet = None, sourceFile = src \<rparr>"
  by (simp add: rowIssue_def col_severity col_description col_occurrences col_title col_wcag col_rule
        col_page getCol_def at_def norm_Critical norm_Images occ_empty orElse_def orUndefined_def
        js_nonempty sev_Critical Let_def)


lemma parse_table_example:
  assumes hdr: "tableHeaderRow doc t = Some h"
      and hc: "rowCells doc h = [js ''Severity'', js ''Description'']"
      and rows: "tableDataRows doc t h = [d]"
      and dc: "rowCells doc d = [js ''Critical'', js ''Images missing alt text'']"
  shows "tableIssuesOf pf doc src t =
           [\<lparr> title = js ''Images missing alt text'', description = js ''Images missing alt text'',
              severity = Critical, severityOriginal = Some (js ''Critical''), occurrences = 1,
              wcag = Some (js ''Images missing alt text''), ruleId = None, page = None,
              exampleSnippet = None, sourceFile = src \<rparr>]"
proof -
  have "d \<in> set (querySelectorAll doc t (tags [''tr'']))"
    using dataRows_are_rows[of d doc t h] rows by simp
  then have ne: "length (querySelectorAll doc t (tags [''tr''])) \<noteq> 0" by auto
  show ?thesis
    unfolding tableIssuesOf_def parseTableIssues_def
    using ne
    by (simp add: hdr hc rows dc key_Severity key_Description looks_like exRow)
qed


lemma ex_tables: "docQuerySelectorAll exTableDoc (tags [''table'']) = [[1,0]]"
  by (simp add: exTableDoc_def dom_defs js_def)

lemma ex_header: "tableHeaderRow exTableDoc [1,0] = Some [1,0,0,0]"
  by (simp add: exTableDoc_def tableHeaderRow_def tHeadFirstRow_def dom_defs js_def)

lemma ex_data: "tableDataRows exTableDoc [1,0] [1,0,0,0] = [[1,0,0,1]]"
  by (simp add: exTableDoc_def tableDataRows_def dom_defs js_def)

lemma ex_header_cells: "rowCells exTableDoc [1,0,0,0] = [js ''Severity'', js ''Description'']"
  by (simp add: exTableDoc_def rowCells_def getCellText_def normalizeTextOpt_def dom_defs
        norm_Severity norm_Description)

lemma ex_data_cells: "rowCells exTableDoc [1,0,0,1] = [js ''Critical'', js ''Images missing alt text'']"
  by (simp add: exTableDoc_def rowCells_def getCellText_def normalizeTextOpt_def dom_defs
        norm_Critical norm_Images)


lemma ex_table_issues:
  "tableIssuesOf pf exTableDoc src [1,0] =
     [\<lparr> title = js ''Images missing alt text'', description = js ''Images missing alt text'',
        severity = Critical, severityOriginal = Some (js ''Critical''), occurrences = 1,
        wcag = Some (js ''Images missing alt text''), ruleId = None, page = None,
        exampleSnippet = None, sourceFile = src \<rparr>]"
  by (rule parse_table_example[OF ex_header ex_header_cells ex_data ex_data_cells])

lemma ex_table_parse:
  "\<exists>r. parseStarkHtmlReport pf (\<lambda>x. Some exTableDoc) [] src = Inr r \<and> length (issues r) = 1"
  using parseDocument_issues[of pf exTableDoc src]
  unfolding ex_tables list.map concat.simps append_Nil2 ex_table_issues
  by (auto simp: parseStarkHtmlReport_def)

lemma norm_no_digits: "normalizeText (js ''no digits here'') = js ''no digits here''"
  by (simp add: char_defs regex_defs text_defs)

lemma no_digits_found: "match0 (Plus (Ch CDigit)) (normalizeText (js ''no digits here'')) = None"
  unfolding norm_no_digits by (simp add: char_defs regex_defs)

text \<open>
  The hypotheses of claim C5 are met: a report with an issue, and a value in which no
  number is found.
\<close>

theorem parsed_occurrences_positive_witness:
  "(\<exists>r. parseStarkHtmlReport exPlatform (\<lambda>x. Some exTableDoc) [] (js ''a.html'') = Inr r \<and>
        issues r \<noteq> [] \<and> (\<forall>i \<in> set (issues r). 1 \<le> occurrences i)) \<and>
   match0 (Plus (Ch CDigit)) (normalizeText (js ''no digits here'')) = None \<and>
   parseOccurrences (js ''no digits here'') = 1"
  using parsed_occurrences_positive[of exPlatform "\<lambda>x. Some exTableDoc" "[]" "js ''a.html''"
          "js ''no digits here''"]
        ex_table_parse[of exPlatform "js ''a.html''"] no_digits_found
  by auto

section \<open>Severity labels\<close>

lemma sev_Serious: "normalizeSeverity pf (js ''Serious'') = Serious"
  by (simp add: normalizeSeverity_def char_defs regex_defs text_defs)
lemma sev_Moderate: "normalizeSeverity pf (js ''Moderate'') = Moderate"
  by (simp add: normalizeSeverity_def char_defs regex_defs text_defs)
lemma sev_Minor: "normalizeSeverity pf (js ''Minor'') = Minor"
  by (simp add: normalizeSeverity_def char_defs regex_defs text_defs)
lemma sev_Unknown: "normalizeSeverity pf (js ''Unknown'') = Unknown"
  by (simp add: normalizeSeverity_def char_defs regex_defs text_defs)
lemma sev_High: "normalizeSeverity pf (js ''High'') = Serious"
  by (simp add: normalizeSeverity_def char_defs regex_defs text_defs)
lemma sev_Medium: "normalizeSeverity pf (js ''Medium'') = Moderate"
  by (simp add: normalizeSeverity_def char_defs regex_defs text_defs)
lemma sev_Low: "normalizeSeverity pf (js ''Low'') = Minor"
  by (simp add: normalizeSeverity_def char_defs regex_defs text_defs)

text \<open>
  Claim C10.  Formatting a severity for display and normalizing the result gives the
  severity back, for every severity and every scheme, an absent scheme included.
\<close>

theorem severity_roundtrip: "normalizeSeverity pf (formatSeverityLabel s scheme) = s"
  by (cases s) (simp_all add: formatSeverityLabel_def sev_Critical sev_Serious sev_Moderate
        sev_Minor sev_Unknown sev_High sev_Medium sev_Low)

section \<open>The text normalizer applied twice\<close>

lemma norm_artifact: "normalizeText (js ''1 2 passed passed'') = js ''1 passed''"
  by (simp add: char_defs regex_defs text_defs)

lemma norm_artifact_again: "normalizeText (js ''1 passed'') = []"
  by (simp add: char_defs regex_defs text_defs)

text \<open>
  Claim C4 fails on the program.  The text \<open>1 2 passed passed\<close> is normalized to
  \<open>1 passed\<close>, which is itself a counter artifact: normalizing it again gives the empty
  text.
\<close>

theorem normalizeText_not_idempotent:
  "normalizeText (normalizeText (js ''1 2 passed passed'')) \<noteq> normalizeText (js ''1 2 passed passed'')"
  by (simp add: norm_artifact norm_artifact_again) (simp add: js_def)

section \<open>Scheme inference\<close>

lemma no_hml_empty: "\<not> rtest hmlWord []"
  by (simp add: hmlWord_def char_defs regex_defs)
lemma no_axe_empty: "\<not> rtest axeWord []"
  by (simp add: axeWord_def char_defs regex_defs)
lemma no_critical_empty: "\<not> rtest criticalWord []"
  by (simp add: criticalWord_def char_defs regex_defs)

lemma list_ex_nonempty:
  "\<not> P [] \<Longrightarrow> list_ex P (filter (\<lambda>l. l \<noteq> []) (map f labels)) = list_ex (\<lambda>l. P (f l)) labels"
  by (induction labels) auto

text \<open>
  Claim C6, with the patterns as the program has them.  A batch of labels has an HML
  word, an axe word or the word critical when one of its labels, normalized and in
  lower case, contains \<open>high\<close>, \<open>medium\<close> or \<open>low\<close> (\<open>serious\<close>, \<open>moderate\<close> or \<open>minor\<close>;
  \<open>critical\<close>) as a whole word.  The scheme is \<open>hml\<close> when the batch has an HML word and
  no axe word; else \<open>axe\<close> when it has an axe word or the word critical; else unknown.
  So a batch with an axe word and an HML word has the scheme \<open>axe\<close>.
\<close>

theorem scheme_inference_rule:
  "inferSeveritySchemeFromRawLabels pf labels =
     (if hasWord pf hmlWord labels \<and> \<not> hasWord pf axeWord labels then Hml
      else if hasWord pf axeWord labels \<or> hasWord pf criticalWord labels then Axe
      else UnknownScheme) \<and>
   (hasWord pf axeWord labels \<and> hasWord pf hmlWord labels \<longrightarrow>
      inferSeveritySchemeFromRawLabels pf labels = Axe)"
  by (simp add: inferSeveritySchemeFromRawLabels_def hasWord_def Let_def
        list_ex_nonempty[of "rtest hmlWord", OF no_hml_empty]
        list_ex_nonempty[of "rtest axeWord", OF no_axe_empty]
        list_ex_nonempty[of "rtest criticalWord", OF no_critical_empty])

lemma hml_High: "rtest hmlWord (toLowerCase pf (normalizeText (js ''High'')))"
  by (simp add: hmlWord_def char_defs regex_defs text_defs)
lemma axe_Minor: "rtest axeWord (toLowerCase pf (normalizeText (js ''Minor'')))"
  by (simp add: axeWord_def char_defs regex_defs text_defs)

text \<open>The hypothesis of claim C6 is met: a batch with an HML word and an axe word.\<close>

theorem scheme_inference_rule_witness:
  "hasWord exPlatform axeWord [js ''High'', js ''Minor''] \<and> hasWord exPlatform hmlWord [js ''High'', js ''Minor''] \<and>
   inferSeveritySchemeFromRawLabels exPlatform [js ''High'', js ''Minor''] = Axe"
  using scheme_inference_rule[of exPlatform "[js ''High'', js ''Minor'']"]
  by (simp add: hasWord_def hml_High axe_Minor)

lemma code_highest: "inferSeveritySchemeFromRawLabels pf [js ''highest''] = UnknownScheme"
  by (simp add: inferSeveritySchemeFromRawLabels_def hmlWord_def axeWord_def criticalWord_def
        char_defs regex_defs text_defs)

lemma spec_highest: "inferSchemeSpec pf [js ''highest''] = Hml"
  by (simp add: inferSchemeSpec_def labelMatches_def char_defs regex_defs text_defs)

text \<open>
  Claim C6 as stated, with a label matching a pattern that occurs anywhere in it: the
  label \<open>highest\<close> matches \<open>high\<close>, so the stated rule gives \<open>hml\<close>, and the program
  gives unknown.
\<close>

theorem scheme_inference_counterexample:
  "inferSeveritySchemeFromRawLabels exPlatform [js ''highest''] = UnknownScheme \<and>
   inferSchemeSpec exPlatform [js ''highest''] = Hml"
  by (simp add: code_highest spec_highest)

section \<open>Consolidation of three example issues\<close>

lemma norm_t: "normalizeText (js ''t'') = js ''t''"
  by (simp add: char_defs regex_defs text_defs)
lemma norm_sp_t: "normalizeText (js '' t'') = js ''t''"
  by (simp add: char_defs regex_defs text_defs)
lemma norm_d: "normalizeText (js ''d'') = js ''d''"
  by (simp add: char_defs regex_defs text_defs)
lemma norm_d_sp: "normalizeText (js ''d '') = js ''d''"
  by (simp add: char_defs regex_defs text_defs)
lemma norm_u: "normalizeText (js ''u'') = js ''u''"
  by (simp add: char_defs regex_defs text_defs)

lemma lower_key_t: "toLowerCase pf (js ''||t|d'') = js ''||t|d''"
  by (simp add: toLowerCase_def js_def)
lemma lower_key_u: "toLowerCase pf (js ''||u|d'') = js ''||u|d''"
  by (simp add: toLowerCase_def js_def)

lemma js_append: "js a @ js b = js (a @ b)"
  by (simp add: js_def)

lemma key_A: "issueKey pf exIssueA = js ''||t|d''"
  by (simp add: issueKey_def exIssueA_def normalizeTextOpt_def norm_t norm_d norm_empty orElse_def
        js_nonempty js_append lower_key_t)
lemma key_B: "issueKey pf exIssueB = js ''||t|d''"
  by (simp add: issueKey_def exIssueB_def normalizeTextOpt_def norm_sp_t norm_d_sp norm_empty
        orElse_def js_nonempty js_append lower_key_t)
lemma key_C: "issueKey pf exIssueC = js ''||u|d''"
  by (simp add: issueKey_def exIssueC_def normalizeTextOpt_def norm_u norm_d norm_empty orElse_def
        js_nonempty js_append lower_key_u)

lemma keys_differ: "js ''||u|d'' \<noteq> js ''||t|d''"
  by (simp add: js_def)


lemma grouped_ABC:
  "grouped pf [exIssueA, exIssueB, exIssueC] =
     [(js ''||t|d'', [normalized exIssueA, normalized exIssueB]), (js ''||u|d'', [normalized exIssueC])]"
  using keys_differ
  by (simp add: grouped_def groupStep_def key_A key_B key_C)



lemma sev_occ_AB:
  "cSeverity (consolidateGroup [normalized exIssueA, normalized exIssueB]) = Serious \<and>
   cOccurrences (consolidateGroup [normalized exIssueA, normalized exIssueB]) = 5"
  by (simp add: consolidateGroup_def normalized_def exIssueA_def exIssueB_def Let_def
        pickHighestSeverity_def isFinite_small num_small)

lemma sev_occ_C:
  "cSeverity (consolidateGroup [normalized exIssueC]) = Critical \<and>
   cOccurrences (consolidateGroup [normalized exIssueC]) = 1"
  by (simp add: consolidateGroup_def normalized_def exIssueC_def Let_def
        pickHighestSeverity_def isFinite_small num_small)

lemma consolidated_ABC:
  "consolidateIssues pf [exIssueA, exIssueB, exIssueC] =
     [consolidateGroup [normalized exIssueC],
      consolidateGroup [normalized exIssueA, normalized exIssueB]]"
  by (simp add: consolidateIssues_def grouped_ABC sortBy_def compareConsolidated_def
        sev_occ_AB sev_occ_C)

text \<open>The hypothesis of claim C2 is met: a result with two elements.\<close>

theorem consolidate_sorted_witness:
  "Suc 0 < length (consolidateIssues exPlatform [exIssueA, exIssueB, exIssueC]) \<and>
   SEVERITY_ORDER (cSeverity (consolidateIssues exPlatform [exIssueA, exIssueB, exIssueC] ! 0)) >
   SEVERITY_ORDER (cSeverity (consolidateIssues exPlatform [exIssueA, exIssueB, exIssueC] ! Suc 0))"
  using consolidate_sorted[of 0 exPlatform "[exIssueA, exIssueB, exIssueC]"]
  by (simp add: consolidated_ABC sev_occ_AB sev_occ_C)













section \<open>A category card with fewer snippets than instances\<close>

lemma violationStart_empty: "\<not> rtest violationStart []"
  by (simp add: violationStart_def char_defs regex_defs)

lemma altText_empty: "\<not> isAltTextRelated pf []"
  by (simp add: isAltTextRelated_def altTextPattern_def norm_empty toLowerCase_def char_defs regex_defs)

lemma showNumber_3: "showNumber pf 3 = js ''3''"
  by (simp add: showNumber_def showInt_def showNat.simps js_def)

lemma parseInt_5: "parseInt (js ''5'') = Some 5"
  by (simp add: parseInt_def digitsValue_def num_small char_defs js_def)

lemma card_three:
  assumes aria: "aria = normalizeTextOpt (getAttribute doc el (js ''aria-label''))"
      and viol: "rtest violationStart aria"
      and m: "rexec ariaPattern aria = Some (pre, mt, st)"
      and five: "capture 3 st = Some (js ''5'')"
      and vis: "visible = normalizeTextOpt (case querySelector doc el titleSelector of
                                               None \<Rightarrow> None | Some t \<Rightarrow> textOf doc t)"
      and d: "d = replaceFirst instancesSuffix []
                    (if visible = [] then normalizeText (case capture 2 st of None \<Rightarrow> [] | Some g \<Rightarrow> g)
                     else visible)"
      and alt: "isAltTextRelated pf d"
      and snips: "filter (\<lambda>s. s \<noteq> [] \<and> isUsefulAltExampleSnippet pf s)
                    (map (\<lambda>c. clampSnippet (case textOf doc c of None \<Rightarrow> [] | Some t \<Rightarrow> t))
                       (querySelectorAll doc el instancesSelector)) = [s1, s2]"
  shows "\<exists>i1 i2 i3. cardIssues pf doc src pageUrl el = [i1, i2, i3] \<and>
           occurrences i1 = 1 \<and> exampleSnippet i1 = Some s1 \<and>
           occurrences i2 = 1 \<and> exampleSnippet i2 = Some s2 \<and>
           occurrences i3 = 3 \<and> exampleSnippet i3 = None \<and>
           description i3 = d @ js '' (Additional 3 instance(s) not included in the HTML export)''"
proof -
  have ne: "aria \<noteq> []" using viol violationStart_empty by auto
  have desc: "cardDescription doc el aria = d"
    by (simp add: cardDescription_def fromAriaMessage_def m vis[symmetric] d Let_def)
  have dne: "d \<noteq> []" using alt altText_empty by auto
  have "fromAriaOccurrences aria = Some 5"
    by (simp add: fromAriaOccurrences_def m five js_nonempty parseInt_5)
  then have occ: "cardOccurrences aria d = 5"
    by (simp add: cardOccurrences_def isFinite_small)
  have sn: "instanceSnippets pf doc el = [s1, s2]"
    unfolding instanceSnippets_def by (rule snips)
  show ?thesis
    unfolding cardIssues_def aria[symmetric] Let_def desc
    using ne viol dne alt
    by (simp add: occ sn showNumber_3 js_append num_small)
qed


text \<open>
  Claim C7, with the message that the extractor reads.  For a category card whose
  label declares five instances, whose description (the text of the visible title, or
  the message of the label if the card shows no title, a suffix \<open>- (N instances)\<close> cut)
  is about an alternative text, and whose list of instances has exactly two snippets
  that are not empty and look like image markup, the extractor emits, in the place of
  that card, exactly two issues with one occurrence each that carry the two snippets,
  and then exactly one issue with three occurrences whose description says that the
  further three instances are not included in the HTML export.
\<close>

theorem card_instances_and_remainder:
  assumes "docQuerySelectorAll doc [[[HasAttr (js ''aria-label'')]]] = before @ el # after"
      and "aria = normalizeTextOpt (getAttribute doc el (js ''aria-label''))"
      and "rtest violationStart aria"
      and "rexec ariaPattern aria = Some (pre, mt, st)"
      and "capture 3 st = Some (js ''5'')"
      and "visible = normalizeTextOpt (case querySelector doc el titleSelector of
                                         None \<Rightarrow> None | Some t \<Rightarrow> textOf doc t)"
      and "d = replaceFirst instancesSuffix []
                 (if visible = [] then normalizeText (case capture 2 st of None \<Rightarrow> [] | Some g \<Rightarrow> g)
                  else visible)"
      and "isAltTextRelated pf d"
      and "filter (\<lambda>s. s \<noteq> [] \<and> isUsefulAltExampleSnippet pf s)
             (map (\<lambda>c. clampSnippet (case textOf doc c of None \<Rightarrow> [] | Some t \<Rightarrow> t))
                (querySelectorAll doc el instancesSelector)) = [s1, s2]"
  shows "\<exists>i1 i2 i3.
           cardIssues pf doc src pageUrl el = [i1, i2, i3] \<and>
           parseCategoriesCardIssues pf doc src pageUrl =
             concat (map (cardIssues pf doc src pageUrl) before) @ [i1, i2, i3] @
             concat (map (cardIssues pf doc src pageUrl) after) \<and>
           occurrences i1 = 1 \<and> exampleSnippet i1 = Some s1 \<and>
           occurrences i2 = 1 \<and> exampleSnippet i2 = Some s2 \<and>
           occurrences i3 = 3 \<and> exampleSnippet i3 = None \<and>
           description i3 = d @ js '' (Additional 3 instance(s) not included in the HTML export)''"
proof -
  from card_three[OF assms(2-9), of src pageUrl]
  obtain i1 i2 i3 where c: "cardIssues pf doc src pageUrl el = [i1, i2, i3]"
    and p: "occurrences i1 = 1 \<and> exampleSnippet i1 = Some s1 \<and>
            occurrences i2 = 1 \<and> exampleSnippet i2 = Some s2 \<and>
            occurrences i3 = 3 \<and> exampleSnippet i3 = None \<and>
            description i3 = d @ js '' (Additional 3 instance(s) not included in the HTML export)''"
    by blast
  have "parseCategoriesCardIssues pf doc src pageUrl =
          concat (map (cardIssues pf doc src pageUrl) before) @ [i1, i2, i3] @
          concat (map (cardIssues pf doc src pageUrl) after)"
    by (simp add: parseCategoriesCardIssues_def assms(1) c)
  with c p show ?thesis by blast
qed

lemma ex_card_elements:
  "docQuerySelectorAll exCardDoc [[[HasAttr (js ''aria-label'')]]] = [] @ [Suc 0,0] # [[Suc 0,0,0]]"
  by (simp add: exCardDoc_def dom_defs js_def)

lemma norm_aria:
  "normalizeText (js ''Violation. Missing alt (5 instances)'') = js ''Violation. Missing alt (5 instances)''"
  by (simp add: char_defs regex_defs text_defs)

lemma ex_card_aria:
  "normalizeTextOpt (getAttribute exCardDoc [Suc 0,0] (js ''aria-label'')) =
     js ''Violation. Missing alt (5 instances)''"
  by (simp add: exCardDoc_def getAttribute_def normalizeTextOpt_def norm_aria)

lemma ex_card_viol: "rtest violationStart (js ''Violation. Missing alt (5 instances)'')"
  by (simp add: violationStart_def char_defs regex_defs)

lemma ex_card_match:
  "rexec ariaPattern (js ''Violation. Missing alt (5 instances)'') =
     Some ([], js ''Violation. Missing alt (5 instances)'',
           (Some 41, [], [(3, js ''5''), (2, js ''Missing alt'')]))"
  by (simp add: ariaPattern_def char_defs regex_defs)

lemma ex_card_groups:
  "capture 3 (Some 41, [], [(3, js ''5''), (2, js ''Missing alt'')]) = Some (js ''5'') \<and>
   capture 2 (Some 41, [], [(3, js ''5''), (2, js ''Missing alt'')]) = Some (js ''Missing alt'')"
  by (simp add: capture_def)

lemma norm_missing_alt: "normalizeText (js ''Missing alt'') = js ''Missing alt''"
  by (simp add: char_defs regex_defs text_defs)

lemma ex_card_five: "fromAriaOccurrences (js ''Violation. Missing alt (5 instances)'') = Some 5"
  by (simp add: fromAriaOccurrences_def ex_card_match ex_card_groups js_nonempty parseInt_5)

lemma ex_card_message: "fromAriaMessage (js ''Violation. Missing alt (5 instances)'') = js ''Missing alt''"
  by (simp add: fromAriaMessage_def ex_card_match ex_card_groups norm_missing_alt)

lemma ex_card_no_title: "querySelector exCardDoc [Suc 0,0] titleSelector = None"
  by (simp add: exCardDoc_def titleSelector_def dom_defs js_def)

lemma ex_card_no_suffix: "replaceFirst instancesSuffix [] (js ''Missing alt'') = js ''Missing alt''"
  by (simp add: instancesSuffix_def char_defs regex_defs)

lemma ex_card_alt: "isAltTextRelated pf (js ''Missing alt'')"
  by (simp add: isAltTextRelated_def altTextPattern_def norm_missing_alt)
     (simp add: char_defs regex_defs toLowerCase_def)

lemma norm_img_a: "normalizeText (js ''<img src=a>'') = js ''<img src=a>''"
  by (simp add: char_defs regex_defs text_defs)
lemma norm_img_b: "normalizeText (js ''<img src=b>'') = js ''<img src=b>''"
  by (simp add: char_defs regex_defs text_defs)
lemma norm_link: "normalizeText (js ''<a href=x>'') = js ''<a href=x>''"
  by (simp add: char_defs regex_defs text_defs)

lemma useful_img_a: "isUsefulAltExampleSnippet pf (js ''<img src=a>'')"
  by (simp add: isUsefulAltExampleSnippet_def norm_img_a)
     (simp add: char_defs regex_defs toLowerCase_def)
lemma useful_img_b: "isUsefulAltExampleSnippet pf (js ''<img src=b>'')"
  by (simp add: isUsefulAltExampleSnippet_def norm_img_b)
     (simp add: char_defs regex_defs toLowerCase_def)
lemma useless_link: "\<not> isUsefulAltExampleSnippet pf (js ''<a href=x>'')"
  by (simp add: isUsefulAltExampleSnippet_def norm_link)
     (simp add: char_defs regex_defs toLowerCase_def)

lemma clamp_img_a: "clampSnippet (js ''<img src=a>'') = js ''<img src=a>''"
  by (simp add: clampSnippet_def norm_img_a) (simp add: js_def)
lemma clamp_img_b: "clampSnippet (js ''<img src=b>'') = js ''<img src=b>''"
  by (simp add: clampSnippet_def norm_img_b) (simp add: js_def)
lemma clamp_link: "clampSnippet (js ''<a href=x>'') = js ''<a href=x>''"
  by (simp add: clampSnippet_def norm_link) (simp add: js_def)

lemma ex_card_codes:
  "querySelectorAll exCardDoc [Suc 0,0] instancesSelector =
     [[Suc 0,0,0,0,0], [Suc 0,0,0,Suc 0,0], [Suc 0,0,0,2,0]]"
  by (simp add: exCardDoc_def instancesSelector_def dom_defs js_def)

lemma ex_card_texts:
  "map (\<lambda>c. clampSnippet (case textOf exCardDoc c of None \<Rightarrow> [] | Some t \<Rightarrow> t))
     [[Suc 0,0,0,0,0], [Suc 0,0,0,Suc 0,0], [Suc 0,0,0,2,0]] =
   [js ''<img src=a>'', js ''<a href=x>'', js ''<img src=b>'']"
  by (simp add: exCardDoc_def textOf_def clamp_img_a clamp_img_b clamp_link)

lemma ex_card_snippets:
  "filter (\<lambda>s. s \<noteq> [] \<and> isUsefulAltExampleSnippet pf s)
     (map (\<lambda>c. clampSnippet (case textOf exCardDoc c of None \<Rightarrow> [] | Some t \<Rightarrow> t))
        (querySelectorAll exCardDoc [Suc 0,0] instancesSelector)) =
   [js ''<img src=a>'', js ''<img src=b>'']"
  unfolding ex_card_codes ex_card_texts
  by (simp add: useful_img_a useful_img_b useless_link js_nonempty)

text \<open>
  The example card meets the hypotheses of claim C7: it shows no title, and of its
  three snippets the second is not image markup.
\<close>

theorem card_instances_and_remainder_witness:
  "docQuerySelectorAll exCardDoc [[[HasAttr (js ''aria-label'')]]] = [] @ [1,0] # [[1,0,0]] \<and>
   normalizeTextOpt (getAttribute exCardDoc [1,0] (js ''aria-label'')) =
     js ''Violation. Missing alt (5 instances)'' \<and>
   rtest violationStart (js ''Violation. Missing alt (5 instances)'') \<and>
   rexec ariaPattern (js ''Violation. Missing alt (5 instances)'') =
     Some ([], js ''Violation. Missing alt (5 instances)'',
           (Some 41, [], [(3, js ''5''), (2, js ''Missing alt'')])) \<and>
   capture 3 (Some 41, [], [(3, js ''5''), (2, js ''Missing alt'')]) = Some (js ''5'') \<and>
   normalizeTextOpt (case querySelector exCardDoc [1,0] titleSelector of
                       None \<Rightarrow> None | Some t \<Rightarrow> textOf exCardDoc t) = [] \<and>
   replaceFirst instancesSuffix []
     (normalizeText (case capture 2 (Some 41, [], [(3, js ''5''), (2, js ''Missing alt'')]) of
                       None \<Rightarrow> [] | Some g \<Rightarrow> g)) = js ''Missing alt'' \<and>
   isAltTextRelated exPlatform (js ''Missing alt'') \<and>
   map (\<lambda>c. clampSnippet (case textOf exCardDoc c of None \<Rightarrow> [] | Some t \<Rightarrow> t))
     (querySelectorAll exCardDoc [1,0] instancesSelector) =
     [js ''<img src=a>'', js ''<a href=x>'', js ''<img src=b>''] \<and>
   filter (\<lambda>s. s \<noteq> [] \<and> isUsefulAltExampleSnippet exPlatform s)
     [js ''<img src=a>'', js ''<a href=x>'', js ''<img src=b>''] =
     [js ''<img src=a>'', js ''<img src=b>''] \<and>
   (\<exists>i1 i2 i3.
      parseCategoriesCardIssues exPlatform exCardDoc (js ''a.html'') None =
        [i1, i2, i3] @ concat (map (cardIssues exPlatform exCardDoc (js ''a.html'') None) [[1,0,0]]) \<and>
      occurrences i1 = 1 \<and> exampleSnippet i1 = Some (js ''<img src=a>'') \<and>
      occurrences i2 = 1 \<and> exampleSnippet i2 = Some (js ''<img src=b>'') \<and>
      occurrences i3 = 3 \<and> exampleSnippet i3 = None \<and>
      description i3 = js ''Missing alt (Additional 3 instance(s) not included in the HTML export)'')"
proof -
  let ?aria = "js ''Violation. Missing alt (5 instances)''"
  let ?st = "(Some 41, [], [(3, js ''5''), (2, js ''Missing alt'')]) :: mstate"
  have vis: "normalizeTextOpt (case querySelector exCardDoc [Suc 0,0] titleSelector of
                                 None \<Rightarrow> None | Some t \<Rightarrow> textOf exCardDoc t) = []"
    by (simp add: ex_card_no_title normalizeTextOpt_def norm_empty)
  have msg: "replaceFirst instancesSuffix []
               (normalizeText (case capture 2 ?st of None \<Rightarrow> [] | Some g \<Rightarrow> g)) = js ''Missing alt''"
    by (simp add: ex_card_groups norm_missing_alt ex_card_no_suffix)
  have d: "js ''Missing alt'' =
             replaceFirst instancesSuffix []
               (if ([] :: jsstring) = [] then normalizeText (case capture 2 ?st of None \<Rightarrow> [] | Some g \<Rightarrow> g)
                else [])"
    using msg by simp
  have texts: "map (\<lambda>c. clampSnippet (case textOf exCardDoc c of None \<Rightarrow> [] | Some t \<Rightarrow> t))
                 (querySelectorAll exCardDoc [Suc 0,0] instancesSelector) =
               [js ''<img src=a>'', js ''<a href=x>'', js ''<img src=b>'']"
    unfolding ex_card_codes by (rule ex_card_texts)
  have filt: "filter (\<lambda>s. s \<noteq> [] \<and> isUsefulAltExampleSnippet exPlatform s)
                [js ''<img src=a>'', js ''<a href=x>'', js ''<img src=b>''] =
              [js ''<img src=a>'', js ''<img src=b>'']"
    by (simp add: useful_img_a useful_img_b useless_link js_nonempty)
  from card_instances_and_remainder[OF ex_card_elements ex_card_aria[symmetric] ex_card_viol
         ex_card_match conjunct1[OF ex_card_groups] vis[symmetric] d ex_card_alt ex_card_snippets,
         of exPlatform "js ''a.html''" None]
  obtain i1 i2 i3 where
    "parseCategoriesCardIssues exPlatform exCardDoc (js ''a.html'') None =
       [i1, i2, i3] @ concat (map (cardIssues exPlatform exCardDoc (js ''a.html'') None) [[Suc 0,0,0]])"
    "occurrences i1 = 1" "exampleSnippet i1 = Some (js ''<img src=a>'')"
    "occurrences i2 = 1" "exampleSnippet i2 = Some (js ''<img src=b>'')"
    "occurrences i3 = 3" "exampleSnippet i3 = None"
    "description i3 = js ''Missing alt'' @ js '' (Additional 3 instance(s) not included in the HTML export)''"
    by auto
  then have "\<exists>i1 i2 i3.
      parseCategoriesCardIssues exPlatform exCardDoc (js ''a.html'') None =
        [i1, i2, i3] @ concat (map (cardIssues exPlatform exCardDoc (js ''a.html'') None) [[Suc 0,0,0]]) \<and>
      occurrences i1 = 1 \<and> exampleSnippet i1 = Some (js ''<img src=a>'') \<and>
      occurrences i2 = 1 \<and> exampleSnippet i2 = Some (js ''<img src=b>'') \<and>
      occurrences i3 = 3 \<and> exampleSnippet i3 = None \<and>
      description i3 = js ''Missing alt (Additional 3 instance(s) not included in the HTML export)''"
    unfolding js_append by (simp only: append.simps) blast
  then show ?thesis
    using ex_card_elements ex_card_aria ex_card_viol ex_card_match ex_card_groups vis msg
          ex_card_alt[of exPlatform] texts filt
    by simp
qed

section \<open>A category card with a visible title\<close>

lemma ex_titled_elements:
  "docQuerySelectorAll exTitledCardDoc [[[HasAttr (js ''aria-label'')]]] = [[Suc 0,0], [Suc 0,0,Suc 0]]"
  by (simp add: exTitledCardDoc_def dom_defs js_def)

lemma ex_titled_aria:
  "normalizeTextOpt (getAttribute exTitledCardDoc [Suc 0,0] (js ''aria-label'')) =
     js ''Violation. Missing alt (5 instances)''"
  by (simp add: exTitledCardDoc_def getAttribute_def normalizeTextOpt_def norm_aria)

lemma norm_Instances: "normalizeText (js ''Instances'') = js ''Instances''"
  by (simp add: char_defs regex_defs text_defs)

lemma not_violation_Instances: "\<not> rtest violationStart (js ''Instances'')"
  by (simp add: violationStart_def char_defs regex_defs)

lemma ex_titled_list: "cardIssues pf exTitledCardDoc src p [Suc 0,0,Suc 0] = []"
  by (simp add: cardIssues_def Let_def exTitledCardDoc_def getAttribute_def normalizeTextOpt_def
        norm_Instances not_violation_Instances)

lemma ex_titled_title: "querySelector exTitledCardDoc [Suc 0,0] titleSelector = Some [Suc 0,0,0]"
  by (simp add: exTitledCardDoc_def titleSelector_def dom_defs js_def)

lemma ex_titled_title_text: "textOf exTitledCardDoc [Suc 0,0,0] = Some (js ''Decorative graphics'')"
  by (simp add: exTitledCardDoc_def textOf_def)

lemma norm_decorative: "normalizeText (js ''Decorative graphics'') = js ''Decorative graphics''"
  by (simp add: char_defs regex_defs text_defs)

lemma decorative_no_suffix:
  "replaceFirst instancesSuffix [] (js ''Decorative graphics'') = js ''Decorative graphics''"
  by (simp add: instancesSuffix_def char_defs regex_defs)

lemma ex_titled_description:
  "cardDescription exTitledCardDoc [Suc 0,0] (js ''Violation. Missing alt (5 instances)'') =
     js ''Decorative graphics''"
  by (simp add: cardDescription_def ex_titled_title ex_titled_title_text normalizeTextOpt_def
        norm_decorative js_nonempty decorative_no_suffix)

lemma decorative_not_alt: "\<not> isAltTextRelated pf (js ''Decorative graphics'')"
  by (simp add: isAltTextRelated_def altTextPattern_def norm_decorative)
     (simp add: char_defs regex_defs toLowerCase_def)

lemma ex_titled_card:
  "map occurrences (cardIssues pf exTitledCardDoc src p [Suc 0,0]) = [5] \<and>
   map exampleSnippet (cardIssues pf exTitledCardDoc src p [Suc 0,0]) = [None]"
  unfolding cardIssues_def ex_titled_aria Let_def ex_titled_description
  by (simp add: js_nonempty ex_card_viol decorative_not_alt cardOccurrences_def ex_card_five
        isFinite_small)

lemma ex_titled_codes:
  "querySelectorAll exTitledCardDoc [Suc 0,0] instancesSelector = [[Suc 0,0,Suc 0,0,0], [Suc 0,0,Suc 0,Suc 0,0]]"
  by (simp add: exTitledCardDoc_def instancesSelector_def dom_defs js_def)

lemma ex_titled_snippets:
  "instanceSnippets pf exTitledCardDoc [Suc 0,0] = [js ''<img src=a>'', js ''<img src=b>'']"
  unfolding instanceSnippets_def ex_titled_codes
  by (simp add: exTitledCardDoc_def textOf_def clamp_img_a clamp_img_b useful_img_a useful_img_b js_nonempty)

text \<open>
  Claim C7 as stated, with the message of the label about an alternative text.  The
  label of the second example card declares five instances of the message
  \<open>Missing alt\<close>, and its list of instances has two snippets of image markup; the card
  shows the title \<open>Decorative graphics\<close>, which the extractor reads in the place of the
  message, and it emits one issue of five occurrences without a snippet.
\<close>

theorem card_visible_title_counterexample:
  "normalizeTextOpt (getAttribute exTitledCardDoc [1,0] (js ''aria-label'')) =
     js ''Violation. Missing alt (5 instances)'' \<and>
   fromAriaOccurrences (js ''Violation. Missing alt (5 instances)'') = Some 5 \<and>
   fromAriaMessage (js ''Violation. Missing alt (5 instances)'') = js ''Missing alt'' \<and>
   isAltTextRelated exPlatform (js ''Missing alt'') \<and>
   instanceSnippets exPlatform exTitledCardDoc [1,0] = [js ''<img src=a>'', js ''<img src=b>''] \<and>
   map occurrences (parseCategoriesCardIssues exPlatform exTitledCardDoc (js ''a.html'') None) = [5] \<and>
   map exampleSnippet (parseCategoriesCardIssues exPlatform exTitledCardDoc (js ''a.html'') None) = [None]"
proof -
  have "parseCategoriesCardIssues exPlatform exTitledCardDoc (js ''a.html'') None =
          cardIssues exPlatform exTitledCardDoc (js ''a.html'') None [Suc 0,0]"
    by (simp add: parseCategoriesCardIssues_def ex_titled_elements ex_titled_list)
  then show ?thesis
    using ex_titled_aria ex_card_five ex_card_message ex_card_alt[of exPlatform]
          ex_titled_snippets[of exPlatform] ex_titled_card[of exPlatform "js ''a.html''" None]
    by simp
qed

section \<open>Filling the gaps from the WCAG breakdown\<close>

lemma set_keys_mapSet: "fst ` set (mapSet k v m) = insert k (fst ` set m)"
proof -
  have "set (map fst (mapSet k v m)) = insert k (set (map fst m))"
    by (auto simp: keys_mapSet)
  then show ?thesis by simp
qed

lemma keys_coveredStep:
  "fst ` set (coveredStep covered i) \<subseteq> insert (normalizeTextOpt (wcag i)) (fst ` set covered)"
  unfolding coveredStep_def Let_def
  by (simp add: set_keys_mapSet subset_insertI)

lemma keys_covered:
  "fst ` set (foldl coveredStep covered cards) \<subseteq>
     fst ` set covered \<union> (\<lambda>i. normalizeTextOpt (wcag i)) ` set cards"
proof (induction cards arbitrary: covered)
  case Nil
  then show ?case by simp
next
  case (Cons i cards)
  from Cons.IH[of "coveredStep covered i"] keys_coveredStep[of covered i]
  show ?case by auto
qed

lemma gapFill_single:
  assumes "\<forall>i \<in> set cards. normalizeTextOpt (wcag i) \<noteq> w"
  shows "gapFill cards [\<lparr> wcagLabel = w, failures = 4, potentials = 0 \<rparr>] pageUrl src =
           [\<lparr> title = js ''WCAG '' @ w @ js '' '' @ [emDash] @ js '' Violations (details not in export)'',
              description = collapsedNote,
              severity = Critical, severityOriginal = None, occurrences = 4,
              wcag = Some w, ruleId = None, page = pageUrl, exampleSnippet = None,
              sourceFile = src \<rparr>]"
proof -
  have "w \<notin> fst ` set (foldl coveredStep [] cards)"
  proof
    assume "w \<in> fst ` set (foldl coveredStep [] cards)"
    with keys_covered[of "[]" cards] have "w \<in> (\<lambda>i. normalizeTextOpt (wcag i)) ` set cards"
      by auto
    with assms show False by auto
  qed
  then have "map_of (foldl coveredStep [] cards) w = None"
    by (simp add: map_of_eq_None_iff)
  then show ?thesis by (simp add: gapFill_def synthFor_def num_small)
qed

text \<open>
  Claim C8.  For a document in which no table yields an issue, whose WCAG breakdown
  declares four failures (and no potentials) for one criterion, and in which no card
  issue belongs to that criterion, \<open>parseStarkHtmlReport\<close> returns the card issues
  followed by exactly one synthetic issue: its severity is Critical, its occurrences are
  4, it refers to the criterion, and its description is the text that says that the
  count is taken from the WCAG breakdown of the report and that detailed issue cards
  were not present in the HTML export.
\<close>

theorem gap_fill_from_breakdown:
  assumes "domParser html = Some doc"
      and "\<forall>t \<in> set (docQuerySelectorAll doc (tags [''table''])). tableIssuesOf pf doc src t = []"
      and "extractWcagBreakdownTotals doc = [\<lparr> wcagLabel = w, failures = 4, potentials = 0 \<rparr>]"
      and "\<forall>i \<in> set (parseCategoriesCardIssues pf doc src (extractPrimaryPageUrl doc)).
             normalizeTextOpt (wcag i) \<noteq> w"
  shows "\<exists>r s. parseStarkHtmlReport pf domParser html src = Inr r \<and>
               issues r = parseCategoriesCardIssues pf doc src (extractPrimaryPageUrl doc) @ [s] \<and>
               severity s = Critical \<and> occurrences s = 4 \<and> wcag s = Some w \<and>
               exampleSnippet s = None \<and>
               title s = js ''WCAG '' @ w @ js '' '' @ [8212] @ js '' Violations (details not in export)'' \<and>
               description s =
                 js ''Count taken from the WCAG breakdown in the Stark report. Detailed issue cards were not present in the HTML export (often because the section was collapsed).''"
proof -
  from parseDocument_issues[of pf doc src] obtain r where r: "parseDocument pf doc src = Inr r"
    and i: "issues r =
       (if concat (map (tableIssuesOf pf doc src) (docQuerySelectorAll doc (tags [''table'']))) = []
        then fallbackIssues pf doc src
        else concat (map (tableIssuesOf pf doc src) (docQuerySelectorAll doc (tags [''table'']))))"
    by blast
  have none: "concat (map (tableIssuesOf pf doc src) (docQuerySelectorAll doc (tags [''table'']))) = []"
    using assms(2) by simp
  have "issues r = fallbackIssues pf doc src" unfolding i none by simp
  also have "\<dots> = parseCategoriesCardIssues pf doc src (extractPrimaryPageUrl doc) @
                   gapFill (parseCategoriesCardIssues pf doc src (extractPrimaryPageUrl doc))
                     [\<lparr> wcagLabel = w, failures = 4, potentials = 0 \<rparr>] (extractPrimaryPageUrl doc) src"
    by (simp add: fallbackIssues_def Let_def assms(3))
  finally show ?thesis
    using r assms(1)
    by (simp add: parseStarkHtmlReport_def gapFill_single[OF assms(4)] collapsedNote_def emDash_def)
qed

lemma ex_bd_tables: "docQuerySelectorAll exBreakdownDoc (tags [''table'']) = []"
  by (simp add: exBreakdownDoc_def dom_defs js_def)

lemma ex_bd_svgs:
  "docQuerySelectorAll exBreakdownDoc
     [[[Tag (js ''svg''), AttrEq (js ''aria-label'') (js ''Failures'')]],
      [[Tag (js ''svg''), AttrEq (js ''aria-label'') (js ''Potentials'')]]] = [[Suc 0,0,0,Suc 0,0]]"
  by (simp add: exBreakdownDoc_def dom_defs js_def)

lemma ex_bd_labelled:
  "docQuerySelectorAll exBreakdownDoc [[[HasAttr (js ''aria-label'')]]] = [[Suc 0,0,0,Suc 0,0]]"
  by (simp add: exBreakdownDoc_def dom_defs js_def)

lemma norm_Failures: "normalizeText (js ''Failures'') = js ''Failures''"
  by (simp add: char_defs regex_defs text_defs)

lemma norm_criterion: "normalizeText (js ''1.1.1 Non-text Content'') = js ''1.1.1 Non-text Content''"
  by (simp add: char_defs regex_defs text_defs)

lemma norm_4: "normalizeText (js ''4'') = js ''4''"
  by (simp add: char_defs regex_defs text_defs)

lemma criterion_no_counters:
  "replaceFirst countersTail [] (js ''1.1.1 Non-text Content'') = js ''1.1.1 Non-text Content''"
  by (simp add: countersTail_def char_defs regex_defs)

lemma criterion_no_number:
  "replaceAll trailingNumber [] (js ''1.1.1 Non-text Content'') = js ''1.1.1 Non-text Content''"
  by (simp add: trailingNumber_def char_defs regex_defs)

lemma criterion_shape: "rtest wcagShape (js ''1.1.1 Non-text Content'')"
  by (simp add: wcagShape_def char_defs regex_defs)

lemma sanitize_criterion:
  "sanitizeWcagLabel (js ''1.1.1 Non-text Content'') = Some (js ''1.1.1 Non-text Content'')"
  unfolding sanitizeWcagLabel_def Let_def norm_criterion criterion_no_counters criterion_no_number
  by (simp add: criterion_shape js_nonempty)

lemma ex_bd_button: "querySelector exBreakdownDoc [Suc 0,0,0] (tags [''button'']) = Some [Suc 0,0,0,0]"
  by (simp add: exBreakdownDoc_def dom_defs js_def)

lemma ex_bd_button_divs: "querySelectorAll exBreakdownDoc [Suc 0,0,0,0] (tags [''div'']) = [[Suc 0,0,0,0,0]]"
  by (simp add: exBreakdownDoc_def dom_defs js_def)

lemma ex_bd_button_text: "textOf exBreakdownDoc [Suc 0,0,0,0,0] = Some (js ''1.1.1 Non-text Content'')"
  by (simp add: exBreakdownDoc_def textOf_def)

lemma ex_bd_li: "tagOf exBreakdownDoc [Suc 0,0,0] = Some (js ''li'')"
  by (simp add: exBreakdownDoc_def tagOf_def)

lemma ex_bd_labels_li: "labelsAt exBreakdownDoc [Suc 0,0,0] = [js ''1.1.1 Non-text Content'']"
  by (simp add: labelsAt_def ex_bd_li ex_bd_button ex_bd_button_divs ex_bd_button_text
        normalizeTextOpt_def norm_criterion js_nonempty sanitize_criterion)

lemma ex_bd_labels_other:
  "labelsAt exBreakdownDoc [Suc 0,0,0,Suc 0,0] = [] \<and> labelsAt exBreakdownDoc [Suc 0,0,0,Suc 0] = [] \<and>
   labelsAt exBreakdownDoc [Suc 0,0] = [] \<and> labelsAt exBreakdownDoc [Suc 0] = [] \<and>
   labelsAt exBreakdownDoc [] = []"
  by (simp add: labelsAt_def exBreakdownDoc_def tagOf_def js_def)

lemma ex_bd_best:
  "extractBestWcagLabelFromAncestors exBreakdownDoc [Suc 0,0,0,Suc 0,0] = Some (js ''1.1.1 Non-text Content'')"
proof -
  have "ancestorLabels 15 exBreakdownDoc (Some [Suc 0,0,0,Suc 0,0]) =
          labelsAt exBreakdownDoc [Suc 0,0,0,Suc 0,0] @ labelsAt exBreakdownDoc [Suc 0,0,0,Suc 0] @
          labelsAt exBreakdownDoc [Suc 0,0,0] @ labelsAt exBreakdownDoc [Suc 0,0] @
          labelsAt exBreakdownDoc [Suc 0] @ labelsAt exBreakdownDoc []"
    by (simp add: eval_nat_numeral parentElement_def)
  then have "ancestorLabels 15 exBreakdownDoc (Some [Suc 0,0,0,Suc 0,0]) = [js ''1.1.1 Non-text Content'']"
    by (simp add: ex_bd_labels_li ex_bd_labels_other)
  then show ?thesis
    by (simp add: extractBestWcagLabelFromAncestors_def sortBy_def at_def)
qed

lemma ex_bd_wrapper: "closest exBreakdownDoc [Suc 0,0,0,Suc 0,0] (js ''div'') = Some [Suc 0,0,0,Suc 0]"
  by (simp add: exBreakdownDoc_def dom_defs js_def)

lemma ex_bd_number_div: "querySelector exBreakdownDoc [Suc 0,0,0,Suc 0] (tags [''div'']) = Some [Suc 0,0,0,Suc 0,Suc 0]"
  by (simp add: exBreakdownDoc_def dom_defs js_def)

lemma ex_bd_number_text: "textOf exBreakdownDoc [Suc 0,0,0,Suc 0,Suc 0] = Some (js ''4'')"
  by (simp add: exBreakdownDoc_def textOf_def)

lemma first_int_4: "parseFirstPositiveInt (js ''4'') = Some 4"
  unfolding parseFirstPositiveInt_def norm_4
  by (simp add: parseInt_def digitsValue_def isFinite_small num_small char_defs regex_defs)

lemma ex_bd_label: "getAttribute exBreakdownDoc [Suc 0,0,0,Suc 0,0] (js ''aria-label'') = Some (js ''Failures'')"
  by (simp add: exBreakdownDoc_def getAttribute_def)

lemma failures_label: "rtest failuresLabel (js ''Failures'')"
  by (simp add: failuresLabel_def char_defs regex_defs)

lemma ex_bd_step:
  "svgStep exBreakdownDoc [] [Suc 0,0,0,Suc 0,0] =
     [(js ''1.1.1 Non-text Content'',
       \<lparr> wcagLabel = js ''1.1.1 Non-text Content'', failures = 4, potentials = 0 \<rparr>)]"
  by (simp add: svgStep_def Let_def ex_bd_label ex_bd_best ex_bd_wrapper ex_bd_number_div
        normalizeTextOpt_def norm_Failures norm_4 js_nonempty criterion_shape
        ex_bd_number_text orElse_def first_int_4 failures_label)

lemma ex_bd_totals:
  "extractWcagBreakdownTotals exBreakdownDoc =
     [\<lparr> wcagLabel = js ''1.1.1 Non-text Content'', failures = 4, potentials = 0 \<rparr>]"
  by (simp add: extractWcagBreakdownTotals_def ex_bd_svgs ex_bd_step)

lemma not_violation_Failures: "\<not> rtest violationStart (js ''Failures'')"
  by (simp add: violationStart_def char_defs regex_defs)

lemma ex_bd_no_cards: "parseCategoriesCardIssues pf exBreakdownDoc src p = []"
  by (simp add: parseCategoriesCardIssues_def ex_bd_labelled cardIssues_def Let_def ex_bd_label
        normalizeTextOpt_def norm_Failures not_violation_Failures)

text \<open>The example report with a collapsed criterion meets the hypotheses of claim C8.\<close>

theorem gap_fill_from_breakdown_witness:
  "(\<lambda>x. Some exBreakdownDoc) [] = Some exBreakdownDoc \<and>
   docQuerySelectorAll exBreakdownDoc (tags [''table'']) = [] \<and>
   extractWcagBreakdownTotals exBreakdownDoc =
     [\<lparr> wcagLabel = js ''1.1.1 Non-text Content'', failures = 4, potentials = 0 \<rparr>] \<and>
   parseCategoriesCardIssues exPlatform exBreakdownDoc (js ''a.html'') (extractPrimaryPageUrl exBreakdownDoc) = [] \<and>
   (\<exists>r s. parseStarkHtmlReport exPlatform (\<lambda>x. Some exBreakdownDoc) [] (js ''a.html'') = Inr r \<and>
          issues r = [s] \<and> severity s = Critical \<and> occurrences s = 4 \<and>
          wcag s = Some (js ''1.1.1 Non-text Content'') \<and> exampleSnippet s = None \<and>
          title s = js ''WCAG '' @ js ''1.1.1 Non-text Content'' @ js '' '' @ [8212] @
                      js '' Violations (details not in export)'' \<and>
          description s =
            js ''Count taken from the WCAG breakdown in the Stark report. Detailed issue cards were not present in the HTML export (often because the section was collapsed).'')"
  using gap_fill_from_breakdown[of "\<lambda>x. Some exBreakdownDoc" "[]" exBreakdownDoc exPlatform "js ''a.html''"
          "js ''1.1.1 Non-text Content''"]
  by (simp add: ex_bd_tables ex_bd_totals ex_bd_no_cards)

end
